theory Spec2Isabelle
  imports Main "HOL-Library.AList"
begin

section \<open>Data model of the server\<close>

text \<open>
  The server keeps its documents in MongoDB collections and its live connections in a
  JavaScript \<open>Map\<close>. A collection is modelled as the list of its documents in insertion
  order; \<open>findById\<close> is a search for the first document with the given \<open>_id\<close>.
  ObjectIds are natural numbers, \<open>Date.now()\<close> is a natural number handed to every
  handler, and the numeric fields the handlers compute with (balances, fees, scores) are
  integers: the spec calls them integer currency units.
\<close>

type_synonym oid = nat
type_synonym time = nat
type_synonym handle = nat

datatype user_status = Online | Offline | InGame | Away

record user =
  u_id :: oid
  username :: string
  email :: string
  password :: string
  displayName :: string
  country :: string
  chartsCreated :: int
  chartsWon :: int
  balance :: int
  totalEarned :: int
  totalSupported :: int
  u_status :: user_status
  lastSeen :: time

datatype chart_status = Open | InProgress | Completed | Cancelled

datatype participant_status = PPending | PActive | PCompleted | PWithdrawn

record participant =
  p_user :: oid
  p_joinedAt :: time
  p_status :: participant_status

record chart =
  c_id :: oid
  creator :: oid
  title :: string
  entryFee :: int
  prize :: int
  prizePool :: int
  c_status :: chart_status
  participants :: "participant list"
  maxParticipants :: int
  minParticipants :: int
  startsAt :: time
  endsAt :: "time option"
  c_donations :: "oid list"
  totalDonations :: int
  c_winner :: "oid option"

datatype player_status = PlWaiting | PlPlaying | PlFinished | PlDisconnected

record player =
  pl_user :: oid
  score :: int
  moves :: int
  pl_status :: player_status
  pl_joinedAt :: time

record spectator =
  sp_user :: oid
  sp_joinedAt :: time

datatype chat_type = ChatUser | ChatSystem | ChatAdvisor

record chat_entry =
  ch_user :: oid
  ch_message :: string
  ch_type :: chat_type
  ch_createdAt :: time

datatype arena_status = Waiting | Live | Paused | Finished

record arena =
  a_id :: oid
  a_chart :: oid
  players :: "player list"
  a_status :: arena_status
  spectators :: "spectator list"
  chat :: "chat_entry list"
  startedAt :: "time option"
  endedAt :: "time option"
  a_winner :: "oid option"
  a_updatedAt :: time

datatype donation_status = DPending | DCompleted | DRefunded | DFailed

record donation =
  d_id :: oid
  d_user :: oid
  d_chart :: oid
  d_recipient :: oid
  d_amount :: int
  d_message :: string
  d_status :: donation_status
  d_completedAt :: "time option"

datatype txn_type =
  Deposit | Withdrawal | EntryFee | Prize | DonationTxn | ShoutoutTxn | Refund | Bonus

datatype reference = NoRef | RefId oid | RefStr string

text \<open>
  A ledger entry: owner, type, signed amount, the balance recorded after the operation
  and the reference. Its description text, status (always \<open>completed\<close>) and metadata
  are not modelled.
\<close>

record transaction =
  t_user :: oid
  t_type :: txn_type
  t_amount :: int
  t_balance :: int
  t_reference :: reference

datatype notification_type =
  NDonation | NChartJoined | NChartCompleted | NMatchStart

text \<open>
  The \<open>data\<close> object of a notification, one constructor per shape the handlers build.
  The human-readable title and message of a notification are not modelled.
\<close>

datatype notification_data =
  ChartCompletedData oid oid int
  | MatchStartData oid oid
  | ChartJoinedData oid oid
  | DonationData oid oid int oid

record notification =
  n_user :: oid
  n_type :: notification_type
  n_data :: notification_data

text \<open>
  The outbound envelopes of the realtime channel. The \<open>timestamp\<close> field of an envelope
  is not modelled. \<open>SpectatorJoined\<close> carries the joiner's user document as found
  (\<open>None\<close> when \<open>User.findById\<close> returns null), \<open>ArenaState\<close> the arena as found.
\<close>

datatype out_msg =
  AuthSuccess oid
  | AuthError
  | ErrorMsg string
  | ArenaState "arena option"
  | SpectatorJoined oid "user option" oid
  | SpectatorLeft oid oid
  | ArenaChat oid chat_entry
  | ScoreUpdate oid oid int "int option"
  | ArenaCompleted oid oid int
  | UserStatus oid user_status
  | NotificationMsg notification
  | Pong

text \<open>
  A WebSocket object of the server: its identity (the connection handle), the fields the
  handlers set on it (\<open>ws.userId\<close>, \<open>ws.arenas\<close>, a JavaScript \<open>Set\<close> kept as a
  duplicate-free list in insertion order) and whether its \<open>readyState\<close> is \<open>OPEN\<close>.
\<close>

record socket =
  ws_id :: handle
  ws_userId :: "oid option"
  ws_arenas :: "oid list"
  ws_open :: bool

text \<open>An entry of \<open>connectedClients\<close>: \<open>{ ws, userId, arenas: new Set(), connectedAt }\<close>.\<close>

record client =
  cl_ws :: handle
  cl_userId :: oid
  cl_connectedAt :: time

text \<open>
  The whole state: the collections, the \<open>connectedClients\<close> map (an association list:
  a JavaScript \<open>Map\<close> iterates in insertion order and \<open>set\<close> on a present key keeps
  its place), the sockets, everything sent so far (\<open>outbox\<close>: handle and envelope, in
  order), and the next fresh ObjectId.
\<close>

record state =
  users :: "user list"
  charts :: "chart list"
  arenas :: "arena list"
  donations :: "donation list"
  transactions :: "transaction list"
  notifications :: "notification list"
  connectedClients :: "(oid \<times> client) list"
  sockets :: "socket list"
  outbox :: "(handle \<times> out_msg) list"
  nextId :: oid

text \<open>An HTTP error response: status code and the \<open>error\<close> string of the JSON body.\<close>

datatype http_error = HttpError nat string

text \<open>An exception thrown inside \<open>completeArena\<close> (a property read on \<open>null\<close>).\<close>

datatype js_error = TypeError

subsection \<open>Collection primitives\<close>

definition findUser :: "oid \<Rightarrow> state \<Rightarrow> user option" where
  "findUser i s = find (\<lambda>u. u_id u = i) (users s)"

definition findChart :: "oid \<Rightarrow> state \<Rightarrow> chart option" where
  "findChart i s = find (\<lambda>c. c_id c = i) (charts s)"

definition findArena :: "oid \<Rightarrow> state \<Rightarrow> arena option" where
  "findArena i s = find (\<lambda>a. a_id a = i) (arenas s)"

text \<open>
  \<open>doc.save()\<close> of a loaded document and \<open>findByIdAndUpdate\<close> both write the changed
  paths of the stored document with that \<open>_id\<close>; a missing document is left missing.
\<close>

definition updateUser :: "oid \<Rightarrow> (user \<Rightarrow> user) \<Rightarrow> state \<Rightarrow> state" where
  "updateUser i f s = s\<lparr>users := map (\<lambda>u. if u_id u = i then f u else u) (users s)\<rparr>"

definition updateChart :: "oid \<Rightarrow> (chart \<Rightarrow> chart) \<Rightarrow> state \<Rightarrow> state" where
  "updateChart i f s = s\<lparr>charts := map (\<lambda>c. if c_id c = i then f c else c) (charts s)\<rparr>"

definition updateArena :: "oid \<Rightarrow> (arena \<Rightarrow> arena) \<Rightarrow> state \<Rightarrow> state" where
  "updateArena i f s = s\<lparr>arenas := map (\<lambda>a. if a_id a = i then f a else a) (arenas s)\<rparr>"

definition saveTransaction :: "transaction \<Rightarrow> state \<Rightarrow> state" where
  "saveTransaction t s = s\<lparr>transactions := transactions s @ [t]\<rparr>"

definition saveNotification :: "notification \<Rightarrow> state \<Rightarrow> state" where
  "saveNotification n s = s\<lparr>notifications := notifications s @ [n]\<rparr>"

subsection \<open>Sending\<close>

definition ws_send :: "handle \<Rightarrow> out_msg \<Rightarrow> state \<Rightarrow> state" where
  "ws_send h m s = s\<lparr>outbox := outbox s @ [(h, m)]\<rparr>"

definition socket_open :: "handle \<Rightarrow> state \<Rightarrow> bool" where
  "socket_open h s = (case find (\<lambda>w. ws_id w = h) (sockets s) of
                        None \<Rightarrow> False | Some w \<Rightarrow> ws_open w)"

text \<open>
  \<open>const client = connectedClients.get(id); if (client && client.ws.readyState ===
  WebSocket.OPEN) client.ws.send(...)\<close>
\<close>

definition send_to_user :: "oid \<Rightarrow> out_msg \<Rightarrow> state \<Rightarrow> state" where
  "send_to_user uid m s =
     (case map_of (connectedClients s) uid of
        None \<Rightarrow> s
      | Some c \<Rightarrow> if socket_open (cl_ws c) s then ws_send (cl_ws c) m s else s)"

text \<open>
  \<open>broadcastToArena\<close>: first the spectators, whose \<open>user\<close> is populated (a spectator
  whose user document is missing is \<open>null\<close> and skipped), then the players, whose
  \<open>user\<close> is the stored reference. A user who is both receives the message twice. The
  function is \<open>async\<close> and its callers do not await it; the model runs it at the call.
\<close>

definition broadcastToArena :: "oid \<Rightarrow> out_msg \<Rightarrow> oid option \<Rightarrow> state \<Rightarrow> state" where
  "broadcastToArena arenaId m excludeUserId s =
     (case findArena arenaId s of
        None \<Rightarrow> s
      | Some a \<Rightarrow>
          let s1 = fold (\<lambda>sp st.
                     if findUser (sp_user sp) s \<noteq> None \<and> Some (sp_user sp) \<noteq> excludeUserId
                     then send_to_user (sp_user sp) m st else st) (spectators a) s
          in fold (\<lambda>pl st.
                     if Some (pl_user pl) \<noteq> excludeUserId
                     then send_to_user (pl_user pl) m st else st) (players a) s1)"

text \<open>\<open>broadcastToAll\<close>: every entry of \<open>connectedClients\<close> but the excluded user.\<close>

definition broadcastToAll :: "out_msg \<Rightarrow> oid option \<Rightarrow> state \<Rightarrow> state" where
  "broadcastToAll m excludeUserId s =
     fold (\<lambda>(uid, c) st.
             if Some uid \<noteq> excludeUserId \<and> socket_open (cl_ws c) st
             then ws_send (cl_ws c) m st else st) (connectedClients s) s"

section \<open>Settlement\<close>

text \<open>What \<open>completeArena\<close> returns when it settles: \<open>{ winner, prize: totalPrize }\<close>.\<close>

record settle_result =
  r_winner :: user
  r_prize :: int

text \<open>
  The body of the loop over \<open>arena.players\<close>: every player other than the winner gets a
  persisted \<open>chart_completed\<close> notification, sent at once when the player is connected.
\<close>

definition notifyParticipant :: "oid \<Rightarrow> oid \<Rightarrow> int \<Rightarrow> player \<Rightarrow> state \<Rightarrow> state" where
  "notifyParticipant chartId winnerId totalPrize p s =
     (if pl_user p \<noteq> winnerId then
        let n = \<lparr>n_user = pl_user p, n_type = NChartCompleted,
                 n_data = ChartCompletedData chartId winnerId totalPrize\<rparr>
        in send_to_user (pl_user p) (NotificationMsg n) (saveNotification n s)
      else s)"

text \<open>
  \<open>completeArena(arenaId, winnerId)\<close>. The guard returns \<open>undefined\<close> (\<open>Inr None\<close>)
  when the arena is missing or already finished. The arena is saved as finished before
  the chart and the winner are read; when the populated chart is \<open>null\<close>
  (\<open>arena.chart._id\<close>) or the winner is not found (\<open>winner.balance\<close>) the function throws
  with the earlier writes in place, and the \<open>catch\<close> rethrows.
\<close>

definition completeArena ::
  "time \<Rightarrow> oid \<Rightarrow> oid \<Rightarrow> state \<Rightarrow> (js_error + settle_result option) \<times> state" where
  "completeArena now arenaId winnerId s =
     (case findArena arenaId s of
        None \<Rightarrow> (Inr None, s)
      | Some arena \<Rightarrow>
          if a_status arena = Finished then (Inr None, s)
          else
            let s1 = updateArena arenaId
                       (\<lambda>a. a\<lparr>a_status := Finished, endedAt := Some now,
                               a_winner := Some winnerId\<rparr>) s
            in (case findChart (a_chart arena) s1 of
                  None \<Rightarrow> (Inl TypeError, s1)
                | Some chart \<Rightarrow>
                    let s2 = updateChart (c_id chart)
                               (\<lambda>c. c\<lparr>c_status := Completed, c_winner := Some winnerId,
                                       endsAt := Some now\<rparr>) s1;
                        totalPrize = entryFee chart * int (length (participants chart))
                    in (case findUser winnerId s2 of
                          None \<Rightarrow> (Inl TypeError, s2)
                        | Some winner0 \<Rightarrow>
                            let winner = winner0\<lparr>balance := balance winner0 + totalPrize,
                                                  totalEarned := totalEarned winner0 + totalPrize,
                                                  chartsWon := chartsWon winner0 + 1\<rparr>;
                                s3 = updateUser winnerId
                                       (\<lambda>u. u\<lparr>balance := balance winner,
                                               totalEarned := totalEarned winner,
                                               chartsWon := chartsWon winner\<rparr>) s2;
                                s4 = saveTransaction
                                       \<lparr>t_user = winnerId, t_type = Prize,
                                        t_amount = totalPrize, t_balance = balance winner,
                                        t_reference = RefId (c_id chart)\<rparr> s3;
                                s5 = fold (notifyParticipant (c_id chart) winnerId totalPrize)
                                       (players arena) s4;
                                s6 = broadcastToArena arenaId
                                       (ArenaCompleted arenaId winnerId totalPrize) None s5
                            in (Inr (Some \<lparr>r_winner = winner, r_prize = totalPrize\<rparr>), s6))))"

text \<open>
  \<open>POST /api/arenas/:arenaId/complete\<close>, after \<open>authenticateToken\<close>. The handler reads
  \<open>result.winner\<close>; when \<open>completeArena\<close> returned \<open>undefined\<close> that read throws, and
  the handler's \<open>catch\<close> answers 500 as it does for a rethrown error.
\<close>

definition post_arena_complete ::
  "time \<Rightarrow> oid \<Rightarrow> oid \<Rightarrow> state \<Rightarrow> (http_error + settle_result) \<times> state" where
  "post_arena_complete now arenaId winnerId s =
     (case completeArena now arenaId winnerId s of
        (Inl e, s') \<Rightarrow> (Inl (HttpError 500 ''Failed to complete arena''), s')
      | (Inr None, s') \<Rightarrow> (Inl (HttpError 500 ''Failed to complete arena''), s')
      | (Inr (Some r), s') \<Rightarrow> (Inr r, s'))"

section \<open>The realtime message handler\<close>

text \<open>
  The inbound envelopes. An \<open>auth\<close> message is given by what \<open>jwt.verify\<close> makes of its
  token: \<open>Some\<close> of the decoded user id, or \<open>None\<close> when verification throws. The
  \<open>moves\<close> of \<open>update_score\<close> may be absent (\<open>undefined\<close>). \<open>leave_arena\<close> carries an
  arena id that the handler never reads.
\<close>

datatype in_msg =
  Auth "oid option"
  | JoinArena oid
  | ArenaChatMsg oid string
  | UpdateScore oid oid int "int option"
  | LeaveArena
  | Ping

definition findSocket :: "handle \<Rightarrow> state \<Rightarrow> socket option" where
  "findSocket h s = find (\<lambda>w. ws_id w = h) (sockets s)"

definition updateSocket :: "handle \<Rightarrow> (socket \<Rightarrow> socket) \<Rightarrow> state \<Rightarrow> state" where
  "updateSocket h f s = s\<lparr>sockets := map (\<lambda>w. if ws_id w = h then f w else w) (sockets s)\<rparr>"

text \<open>\<open>Set.add\<close> on the list that stands for a JavaScript \<open>Set\<close>.\<close>

definition set_add :: "'a \<Rightarrow> 'a list \<Rightarrow> 'a list" where
  "set_add x xs = (if x \<in> set xs then xs else xs @ [x])"

text \<open>
  \<open>$addToSet\<close> appends the value unless the array already holds an element equal to it
  in every field. (Mongoose also gives the cast subdocument a fresh \<open>_id\<close>, which the
  model leaves out.)
\<close>

definition addToSet :: "'a \<Rightarrow> 'a list \<Rightarrow> 'a list" where
  "addToSet x xs = (if x \<in> set xs then xs else xs @ [x])"

text \<open>\<open>$pull: { spectators: { user: userId } }\<close> removes every element of that user.\<close>

definition pullSpectator :: "oid \<Rightarrow> oid \<Rightarrow> state \<Rightarrow> state" where
  "pullSpectator arenaId uid s =
     updateArena arenaId
       (\<lambda>a. a\<lparr>spectators := filter (\<lambda>sp. sp_user sp \<noteq> uid) (spectators a)\<rparr>) s"

text \<open>
  A JavaScript object literal, as the list of its properties: a key written twice keeps
  the value written last.
\<close>

definition js_object :: "('k \<times> 'v) list \<Rightarrow> ('k \<times> 'v) list" where
  "js_object kvs = fold (\<lambda>(k, v). AList.update k v) kvs []"

text \<open>The paths the score update names: \<open>players.$.score\<close>, \<open>players.$.moves\<close>, \<open>updatedAt\<close>.\<close>

datatype set_path = PlayersScore int | PlayersMoves int | UpdatedAt time

text \<open>Apply a change to the first element that satisfies the filter.\<close>

fun upd_first :: "('a \<Rightarrow> bool) \<Rightarrow> ('a \<Rightarrow> 'a) \<Rightarrow> 'a list \<Rightarrow> 'a list" where
  "upd_first P f [] = []"
| "upd_first P f (x # xs) = (if P x then f x # xs else x # upd_first P f xs)"

text \<open>
  One path of a \<open>$set\<close>; the positional \<open>$\<close> is the first player matched by the filter
  \<open>'players.user': playerId\<close>.
\<close>

fun apply_set_path :: "oid \<Rightarrow> set_path \<Rightarrow> arena \<Rightarrow> arena" where
  "apply_set_path playerId (PlayersScore v) a =
     a\<lparr>players := upd_first (\<lambda>p. pl_user p = playerId) (\<lambda>p. p\<lparr>score := v\<rparr>) (players a)\<rparr>"
| "apply_set_path playerId (PlayersMoves v) a =
     a\<lparr>players := upd_first (\<lambda>p. pl_user p = playerId) (\<lambda>p. p\<lparr>moves := v\<rparr>) (players a)\<rparr>"
| "apply_set_path playerId (UpdatedAt t) a = a\<lparr>a_updatedAt := t\<rparr>"

text \<open>
  \<open>Arena.updateOne({ _id: arenaId, 'players.user': playerId }, doc)\<close>: the first arena
  with that id and such a player gets the paths under the \<open>$set\<close> key of \<open>doc\<close>.
\<close>

definition Arena_updateOne ::
  "oid \<Rightarrow> oid \<Rightarrow> (string \<times> set_path list) list \<Rightarrow> state \<Rightarrow> state" where
  "Arena_updateOne arenaId playerId doc s =
     (case map_of doc ''$set'' of
        None \<Rightarrow> s
      | Some paths \<Rightarrow>
          s\<lparr>arenas := upd_first
                         (\<lambda>a. a_id a = arenaId \<and> playerId \<in> set (map pl_user (players a)))
                         (\<lambda>a. fold (apply_set_path playerId) paths a) (arenas s)\<rparr>)"

text \<open>
  The update document of \<open>update_score\<close>, as the source writes it:
  \<^verbatim>\<open>const update = { 'players.$.score': score };
if (moves !== undefined) update['players.$.moves'] = moves;
... { $set: update, $set: { updatedAt: Date.now() } }\<close>
\<close>

definition score_update_doc :: "time \<Rightarrow> int \<Rightarrow> int option \<Rightarrow> (string \<times> set_path list) list" where
  "score_update_doc now sc mv =
     (let update = PlayersScore sc # (case mv of None \<Rightarrow> [] | Some m \<Rightarrow> [PlayersMoves m])
      in js_object [(''$set'', update), (''$set'', [UpdatedAt now])])"

text \<open>
  \<open>ChartSchema\<close> declares no \<open>winScore\<close> path, so \<open>chart.winScore\<close> is \<open>undefined\<close> on
  every chart document.
\<close>

definition chart_winScore :: "chart \<Rightarrow> int option" where
  "chart_winScore c = None"

text \<open>\<open>x || d\<close> on a number that may be \<open>undefined\<close>: \<open>undefined\<close> and \<open>0\<close> are falsy.\<close>

definition js_or :: "int option \<Rightarrow> int \<Rightarrow> int" where
  "js_or x d = (case x of None \<Rightarrow> d | Some v \<Rightarrow> if v = 0 then d else v)"

text \<open>
  The \<open>message\<close> handler of the socket with handle \<open>h\<close>. An exception inside a case is
  caught by the handler, which sends a generic \<open>error\<close> envelope to the socket.
\<close>

definition on_message :: "time \<Rightarrow> handle \<Rightarrow> in_msg \<Rightarrow> state \<Rightarrow> state" where
  "on_message now h msg s =
     (case findSocket h s of
        None \<Rightarrow> s
      | Some ws \<Rightarrow>
         (case msg of
            Auth None \<Rightarrow> ws_send h AuthError s
          | Auth (Some uid) \<Rightarrow>
              let s1 = updateSocket h (\<lambda>w. w\<lparr>ws_userId := Some uid\<rparr>) s;
                  s2 = s1\<lparr>connectedClients :=
                            AList.update uid
                              \<lparr>cl_ws = h, cl_userId = uid, cl_connectedAt = now\<rparr>
                              (connectedClients s1)\<rparr>;
                  s3 = updateUser uid (\<lambda>u. u\<lparr>u_status := Online, lastSeen := now\<rparr>) s2;
                  s4 = ws_send h (AuthSuccess uid) s3
              in broadcastToAll (UserStatus uid Online) (Some uid) s4
          | JoinArena arenaId \<Rightarrow>
              (case ws_userId ws of
                 None \<Rightarrow> ws_send h (ErrorMsg ''Not authenticated'') s
               | Some uid \<Rightarrow>
                   let s1 = updateSocket h (\<lambda>w. w\<lparr>ws_arenas := set_add arenaId (ws_arenas w)\<rparr>) s;
                       s2 = updateArena arenaId
                              (\<lambda>a. a\<lparr>spectators :=
                                       addToSet \<lparr>sp_user = uid, sp_joinedAt = now\<rparr>
                                         (spectators a)\<rparr>) s1;
                       s3 = broadcastToArena arenaId
                              (SpectatorJoined uid (findUser uid s2) arenaId) (Some uid) s2
                   in ws_send h (ArenaState (findArena arenaId s3)) s3)
          | ArenaChatMsg arenaId chatMessage \<Rightarrow>
              (case ws_userId ws of
                 None \<Rightarrow> ws_send h (ErrorMsg ''Not authenticated'') s
               | Some uid \<Rightarrow>
                   (case findArena arenaId s of
                      None \<Rightarrow> s
                    | Some arena \<Rightarrow>
                        let chatEntry = \<lparr>ch_user = uid, ch_message = take 280 chatMessage,
                                         ch_type = ChatUser, ch_createdAt = now\<rparr>;
                            s1 = updateArena arenaId
                                   (\<lambda>a. a\<lparr>chat := chat a @ [chatEntry], a_updatedAt := now\<rparr>) s
                        in broadcastToArena arenaId (ArenaChat arenaId chatEntry) None s1))
          | UpdateScore arenaId playerId sc mv \<Rightarrow>
              (case ws_userId ws of
                 None \<Rightarrow> s
               | Some uid \<Rightarrow>
                   (case find (\<lambda>a. a_id a = arenaId \<and> uid \<in> set (map pl_user (players a)))
                           (arenas s) of
                      None \<Rightarrow> s
                    | Some scoreArena \<Rightarrow>
                        let s1 = Arena_updateOne arenaId playerId
                                   (score_update_doc now sc mv) s;
                            s2 = broadcastToArena arenaId
                                   (ScoreUpdate arenaId playerId sc mv) None s1
                        in (case findArena arenaId s2 of
                              None \<Rightarrow> ws_send h (ErrorMsg ''Failed to process message'') s2
                            | Some updatedArena \<Rightarrow>
                                let winScore =
                                      js_or (case findChart (a_chart updatedArena) s2 of
                                               None \<Rightarrow> None
                                             | Some c \<Rightarrow> chart_winScore c) 100
                                in if sc \<ge> winScore then
                                     (case completeArena now arenaId playerId s2 of
                                        (Inl e, s3) \<Rightarrow>
                                          ws_send h (ErrorMsg ''Failed to process message'') s3
                                      | (Inr r, s3) \<Rightarrow> s3)
                                   else s2)))
          | LeaveArena \<Rightarrow>
              (case ws_userId ws of
                 None \<Rightarrow> s
               | Some uid \<Rightarrow>
                   let s1 = fold (\<lambda>arenaId st.
                                    broadcastToArena arenaId (SpectatorLeft uid arenaId) None
                                      (pullSpectator arenaId uid st)) (ws_arenas ws) s
                   in updateSocket h (\<lambda>w. w\<lparr>ws_arenas := []\<rparr>) s1)
          | Ping \<Rightarrow> ws_send h Pong s))"

text \<open>
  The \<open>close\<close> handler of the socket with handle \<open>h\<close>; the socket is no longer open when
  it runs. It deletes the entry of \<open>ws.userId\<close> from \<open>connectedClients\<close>, whichever
  socket that entry holds.
\<close>

definition on_close :: "time \<Rightarrow> handle \<Rightarrow> state \<Rightarrow> state" where
  "on_close now h s0 =
     (let s = updateSocket h (\<lambda>w. w\<lparr>ws_open := False\<rparr>) s0
      in case findSocket h s of
           None \<Rightarrow> s
         | Some ws \<Rightarrow>
             (case ws_userId ws of
                None \<Rightarrow> s
              | Some uid \<Rightarrow>
                  let s1 = s\<lparr>connectedClients := AList.delete uid (connectedClients s)\<rparr>;
                      s2 = updateUser uid (\<lambda>u. u\<lparr>u_status := Offline, lastSeen := now\<rparr>) s1;
                      s3 = broadcastToAll (UserStatus uid Offline) (Some uid) s2
                  in fold (\<lambda>arenaId st.
                             broadcastToArena arenaId (SpectatorLeft uid arenaId) None
                               (pullSpectator arenaId uid st)) (ws_arenas ws) s3))"

text \<open>The connection registry of the spec, read off the handlers above.\<close>

definition lookup :: "oid \<Rightarrow> state \<Rightarrow> handle option" where
  "lookup uid s = map_option cl_ws (map_of (connectedClients s) uid)"

section \<open>The HTTP handlers\<close>

text \<open>
  Each handler is modelled after \<open>authenticateToken\<close> has accepted the request:
  \<open>reqUser\<close> is \<open>req.user.id\<close>. A handler answers either an error response or its
  result, and returns the state it leaves. An exception inside a handler reaches its
  \<open>catch\<close>, which answers 500.
\<close>

subsection \<open>Strings\<close>

definition upper_chars :: string where
  "upper_chars = ''ABCDEFGHIJKLMNOPQRSTUVWXYZ''"

definition lower_chars :: string where
  "lower_chars = ''abcdefghijklmnopqrstuvwxyz''"

definition digit_chars :: string where
  "digit_chars = ''0123456789''"

text \<open>\<open>toLowerCase\<close> and \<open>toUpperCase\<close>, on ASCII letters.\<close>

definition toLowerCase :: "string \<Rightarrow> string" where
  "toLowerCase = map (\<lambda>c. case map_of (zip upper_chars lower_chars) c of
                              None \<Rightarrow> c | Some d \<Rightarrow> d)"

definition toUpperCase :: "string \<Rightarrow> string" where
  "toUpperCase = map (\<lambda>c. case map_of (zip lower_chars upper_chars) c of
                              None \<Rightarrow> c | Some d \<Rightarrow> d)"

text \<open>The regular expression \<open>/^\w+$/\<close>.\<close>

definition is_word :: "string \<Rightarrow> bool" where
  "is_word x = (x \<noteq> [] \<and> list_all (\<lambda>c. c \<in> set (upper_chars @ lower_chars @ digit_chars @ ''_'')) x)"

text \<open>\<open>trim\<close>: white space (space, tab, line feed, vertical tab, form feed, return) off both ends.\<close>

definition is_space :: "char \<Rightarrow> bool" where
  "is_space c = (c \<in> set [CHR '' '', CHR 0x09, CHR 0x0A, CHR 0x0B, CHR 0x0C, CHR 0x0D])"

definition trim :: "string \<Rightarrow> string" where
  "trim x = rev (dropWhile is_space (rev (dropWhile is_space x)))"

subsection \<open>Registration\<close>

text \<open>
  The body of \<open>POST /api/auth/register\<close>. \<open>displayName\<close> and \<open>country\<close> may be absent.
\<close>

record register_req =
  rq_username :: string
  rq_email :: string
  rq_password :: string
  rq_displayName :: "string option"
  rq_country :: "string option"

text \<open>\<open>x || d\<close> on a string that may be \<open>undefined\<close>: \<open>undefined\<close> and \<open>''\<close> are falsy.\<close>

definition js_or_str :: "string option \<Rightarrow> string \<Rightarrow> string" where
  "js_or_str x d = (case x of None \<Rightarrow> d | Some v \<Rightarrow> if v = [] then d else v)"

text \<open>
  \<open>POST /api/auth/register\<close>. \<open>hash\<close> stands for \<open>bcrypt.hash(_, 12)\<close>. The schema
  setters lowercase and trim \<open>username\<close> and \<open>email\<close>, trim \<open>displayName\<close> and uppercase
  \<open>country\<close>; \<open>user.save()\<close> throws when a required string is empty, when \<open>country\<close> is
  longer than two characters, or when the unique index on \<open>username\<close> or \<open>email\<close> finds
  the value taken. The result is the token's payload (id and username) and the user.
\<close>

definition register ::
  "(string \<Rightarrow> string) \<Rightarrow> time \<Rightarrow> register_req \<Rightarrow> state
     \<Rightarrow> (http_error + (oid \<times> string) \<times> user) \<times> state" where
  "register hash now rq s =
     (if rq_username rq = [] \<or> rq_email rq = [] \<or> rq_password rq = [] then
        (Inl (HttpError 400 ''Missing required fields''), s)
      else if length (rq_username rq) < 3 \<or> length (rq_username rq) > 20 then
        (Inl (HttpError 400 ''Username must be 3-20 characters''), s)
      else if length (rq_password rq) < 6 then
        (Inl (HttpError 400 ''Password must be at least 6 characters''), s)
      else if \<not> is_word (rq_username rq) then
        (Inl (HttpError 400 ''Username can only contain letters, numbers, and underscores''), s)
      else
        (case find (\<lambda>u. email u = toLowerCase (rq_email rq)
                        \<or> username u = toLowerCase (rq_username rq)) (users s) of
           Some existingUser \<Rightarrow>
             if email existingUser = toLowerCase (rq_email rq) then
               (Inl (HttpError 400 ''Email already registered''), s)
             else (Inl (HttpError 400 ''Username already taken''), s)
         | None \<Rightarrow>
             let hashedPassword = hash (rq_password rq);
                 user = \<lparr>u_id = nextId s,
                         username = trim (toLowerCase (rq_username rq)),
                         email = trim (toLowerCase (rq_email rq)),
                         password = hashedPassword,
                         displayName = trim (js_or_str (rq_displayName rq) (rq_username rq)),
                         country = toUpperCase (js_or_str (rq_country rq) ''US''),
                         chartsCreated = 0, chartsWon = 0,
                         balance = 100,
                         totalEarned = 0, totalSupported = 0,
                         u_status = Offline, lastSeen = now\<rparr>
             in if username user = [] \<or> email user = [] \<or> displayName user = []
                   \<or> length (country user) > 2
                   \<or> find (\<lambda>u. username u = username user \<or> email u = email user) (users s)
                        \<noteq> None
                then (Inl (HttpError 500 ''Registration failed. Please try again.''), s)
                else
                  let s1 = s\<lparr>users := users s @ [user], nextId := nextId s + 1\<rparr>;
                      s2 = saveTransaction
                             \<lparr>t_user = u_id user, t_type = Bonus, t_amount = 100,
                              t_balance = 100, t_reference = NoRef\<rparr> s1
                  in (Inr ((u_id user, username user), user), s2)))"

subsection \<open>Deposit\<close>

text \<open>\<open>POST /api/transactions/deposit\<close>. A missing user makes \<open>user.balance\<close> throw.\<close>

definition post_deposit ::
  "oid \<Rightarrow> int \<Rightarrow> state \<Rightarrow> (http_error + int \<times> transaction) \<times> state" where
  "post_deposit reqUser amount s =
     (if amount = 0 \<or> amount \<le> 0 then (Inl (HttpError 400 ''Invalid amount''), s)
      else if amount > 10000 then (Inl (HttpError 400 ''Maximum deposit is 10,000 THB''), s)
      else
        (case findUser reqUser s of
           None \<Rightarrow> (Inl (HttpError 500 ''Failed to process deposit''), s)
         | Some user0 \<Rightarrow>
             let user = user0\<lparr>balance := balance user0 + amount\<rparr>;
                 s1 = updateUser reqUser (\<lambda>u. u\<lparr>balance := balance user\<rparr>) s;
                 transaction = \<lparr>t_user = reqUser, t_type = Deposit, t_amount = amount,
                                t_balance = balance user, t_reference = NoRef\<rparr>;
                 s2 = saveTransaction transaction s1
             in (Inr (balance user, transaction), s2)))"

subsection \<open>Creating a chart\<close>

text \<open>
  The body of \<open>POST /api/charts\<close>; \<open>entryFee\<close> is taken as given, the other numbers may
  be absent. Fields of the chart that no handler below reads are left out. The fee is
  debited and its ledger entry written before \<open>chart.save()\<close>, which throws when the
  trimmed title is empty or longer than 100 characters.
\<close>

record chart_req =
  cq_title :: string
  cq_game :: string
  cq_entryFee :: int
  cq_prize :: "int option"
  cq_maxParticipants :: "int option"
  cq_minParticipants :: "int option"

definition post_charts ::
  "time \<Rightarrow> oid \<Rightarrow> chart_req \<Rightarrow> state \<Rightarrow> (http_error + chart) \<times> state" where
  "post_charts now reqUser rq s =
     (if cq_title rq = [] \<or> cq_game rq = [] then
        (Inl (HttpError 400 ''Title and game are required''), s)
      else if cq_entryFee rq < 0 then
        (Inl (HttpError 400 ''Entry fee cannot be negative''), s)
      else if (case cq_maxParticipants rq of None \<Rightarrow> False | Some m \<Rightarrow> m < 2 \<or> m > 8) then
        (Inl (HttpError 400 ''Max participants must be between 2 and 8''), s)
      else
        (case findUser reqUser s of
           None \<Rightarrow> (Inl (HttpError 500 ''Failed to create chart''), s)
         | Some user0 \<Rightarrow>
             if balance user0 < cq_entryFee rq then
               (Inl (HttpError 400 ''Insufficient balance to create chart''), s)
             else
               let user = user0\<lparr>balance := balance user0 - cq_entryFee rq\<rparr>;
                   s1 = updateUser reqUser (\<lambda>u. u\<lparr>balance := balance user\<rparr>) s;
                   s2 = saveTransaction
                          \<lparr>t_user = reqUser, t_type = EntryFee, t_amount = - cq_entryFee rq,
                           t_balance = balance user,
                           t_reference = RefStr ''chart_creation''\<rparr> s1;
                   chart = \<lparr>c_id = nextId s2, creator = reqUser,
                            title = trim (cq_title rq),
                            entryFee = cq_entryFee rq,
                            prize = js_or (cq_prize rq) (cq_entryFee rq * 2),
                            prizePool = cq_entryFee rq * 2,
                            c_status = Open,
                            participants =
                              [\<lparr>p_user = reqUser, p_joinedAt = now, p_status = PActive\<rparr>],
                            maxParticipants = js_or (cq_maxParticipants rq) 2,
                            minParticipants = js_or (cq_minParticipants rq) 2,
                            startsAt = now + 5 * 60000,
                            endsAt = None, c_donations = [], totalDonations = 0,
                            c_winner = None\<rparr>
               in if title chart = [] \<or> length (title chart) > 100 then
                    (Inl (HttpError 500 ''Failed to create chart''), s2)
                  else
                    let s3 = s2\<lparr>charts := charts s2 @ [chart], nextId := nextId s2 + 1\<rparr>;
                        s4 = updateUser reqUser
                               (\<lambda>u. u\<lparr>chartsCreated := chartsCreated u + 1\<rparr>) s3
                    in (Inr chart, s4)))"

subsection \<open>Joining a chart\<close>

text \<open>The players of a new arena: \<open>chart.participants.map(p => ({ user: p.user, ... }))\<close>.\<close>

definition snapshot_player :: "time \<Rightarrow> participant \<Rightarrow> player" where
  "snapshot_player now p =
     \<lparr>pl_user = p_user p, score = 0, moves = 0, pl_status = PlPlaying, pl_joinedAt = now\<rparr>"

text \<open>The body of the loop that tells every participant the match has started.\<close>

definition notifyMatchStart :: "oid \<Rightarrow> oid \<Rightarrow> participant \<Rightarrow> state \<Rightarrow> state" where
  "notifyMatchStart chartId arenaId p s =
     (let n = \<lparr>n_user = p_user p, n_type = NMatchStart,
               n_data = MatchStartData chartId arenaId\<rparr>
      in send_to_user (p_user p) (NotificationMsg n) (saveNotification n s))"

text \<open>
  \<open>POST /api/charts/:chartId/join\<close>. The checks come in the source's order: found, open,
  not full, not joined yet, not started, joiner's balance. The answer is the chart as the
  handler holds it after the join.
\<close>

definition post_chart_join ::
  "time \<Rightarrow> oid \<Rightarrow> oid \<Rightarrow> state \<Rightarrow> (http_error + chart) \<times> state" where
  "post_chart_join now reqUser chartId s =
     (case findChart chartId s of
        None \<Rightarrow> (Inl (HttpError 404 ''Chart not found''), s)
      | Some chart0 \<Rightarrow>
          if c_status chart0 \<noteq> Open then (Inl (HttpError 400 ''Chart is not open''), s)
          else if int (length (participants chart0)) \<ge> maxParticipants chart0 then
            (Inl (HttpError 400 ''Chart is full''), s)
          else if reqUser \<in> set (map p_user (participants chart0)) then
            (Inl (HttpError 400 ''Already joined this chart''), s)
          else if now > startsAt chart0 then
            (Inl (HttpError 400 ''Chart has already started''), s)
          else
            (case findUser reqUser s of
               None \<Rightarrow> (Inl (HttpError 500 ''Failed to join chart''), s)
             | Some user0 \<Rightarrow>
                 if balance user0 < entryFee chart0 then
                   (Inl (HttpError 400 ''Insufficient balance''), s)
                 else
                   let user = user0\<lparr>balance := balance user0 - entryFee chart0\<rparr>;
                       s1 = updateUser reqUser (\<lambda>u. u\<lparr>balance := balance user\<rparr>) s;
                       s2 = saveTransaction
                              \<lparr>t_user = reqUser, t_type = EntryFee,
                               t_amount = - entryFee chart0, t_balance = balance user,
                               t_reference = RefId (c_id chart0)\<rparr> s1;
                       chart1 = chart0\<lparr>prizePool := prizePool chart0 + entryFee chart0,
                                       participants := participants chart0 @
                                         [\<lparr>p_user = reqUser, p_joinedAt = now,
                                           p_status = PPending\<rparr>]\<rparr>;
                       s3 = updateChart chartId
                              (\<lambda>c. c\<lparr>prizePool := prizePool chart1,
                                      participants := participants chart1\<rparr>) s2;
                       (chart2, s6) =
                         (if int (length (participants chart1)) \<ge> maxParticipants chart1 then
                            let chart2 = chart1\<lparr>c_status := InProgress\<rparr>;
                                s4 = updateChart chartId (\<lambda>c. c\<lparr>c_status := InProgress\<rparr>) s3;
                                arena = \<lparr>a_id = nextId s4, a_chart = c_id chart2,
                                         players = map (snapshot_player now) (participants chart2),
                                         a_status = Live, spectators = [], chat = [],
                                         startedAt = Some now, endedAt = None,
                                         a_winner = None, a_updatedAt = now\<rparr>;
                                s5 = s4\<lparr>arenas := arenas s4 @ [arena], nextId := nextId s4 + 1\<rparr>
                            in (chart2,
                                fold (notifyMatchStart (c_id chart2) (a_id arena))
                                  (participants chart2) s5)
                          else (chart1, s3));
                       n = \<lparr>n_user = creator chart2, n_type = NChartJoined,
                            n_data = ChartJoinedData (c_id chart2) reqUser\<rparr>;
                       s7 = saveNotification n s6
                   in (Inr chart2, send_to_user (creator chart2) (NotificationMsg n) s7)))"

subsection \<open>Donations\<close>

text \<open>What a successful \<open>POST /api/donations\<close> answers.\<close>

record donation_result =
  dr_donation :: donation
  dr_balance :: int
  dr_recipientBalance :: int

text \<open>
  \<open>POST /api/donations\<close>. The donor and the recipient are two documents, each loaded by
  its own \<open>findById\<close> before any write; each \<open>save()\<close> writes the balance computed on
  its own copy. \<open>donation.save()\<close> throws when the trimmed message is longer than 280
  characters. \<open>(chart.totalDonations || 0) + amount\<close> is \<open>totalDonations + amount\<close> on
  a number.
\<close>

definition post_donations ::
  "time \<Rightarrow> oid \<Rightarrow> oid \<Rightarrow> oid \<Rightarrow> int \<Rightarrow> string option \<Rightarrow> state
     \<Rightarrow> (http_error + donation_result) \<times> state" where
  "post_donations now reqUser chartId recipientId amount message s =
     (if amount = 0 \<or> amount \<le> 0 then (Inl (HttpError 400 ''Invalid donation amount''), s)
      else if amount < 10 then (Inl (HttpError 400 ''Minimum donation is 10 THB''), s)
      else
        (case findUser reqUser s of
           None \<Rightarrow> (Inl (HttpError 500 ''Failed to process donation''), s)
         | Some user0 \<Rightarrow>
             if balance user0 < amount then (Inl (HttpError 400 ''Insufficient balance''), s)
             else
               (case findChart chartId s of
                  None \<Rightarrow> (Inl (HttpError 404 ''Chart not found''), s)
                | Some chart \<Rightarrow>
                    (case findUser recipientId s of
                       None \<Rightarrow> (Inl (HttpError 404 ''Recipient not found''), s)
                     | Some recipient0 \<Rightarrow>
                         let donation =
                               \<lparr>d_id = nextId s, d_user = reqUser, d_chart = chartId,
                                d_recipient = recipientId, d_amount = amount,
                                d_message = js_or_str (map_option trim message) [],
                                d_status = DCompleted, d_completedAt = Some now\<rparr>
                         in if length (d_message donation) > 280 then
                              (Inl (HttpError 500 ''Failed to process donation''), s)
                            else
                              let s1 = s\<lparr>donations := donations s @ [donation],
                                         nextId := nextId s + 1\<rparr>;
                                  user = user0\<lparr>balance := balance user0 - amount,
                                              totalSupported := totalSupported user0 + amount\<rparr>;
                                  s2 = updateUser reqUser
                                         (\<lambda>u. u\<lparr>balance := balance user,
                                                 totalSupported := totalSupported user\<rparr>) s1;
                                  recipient =
                                    recipient0\<lparr>balance := balance recipient0 + amount,
                                               totalEarned := totalEarned recipient0 + amount\<rparr>;
                                  s3 = updateUser recipientId
                                         (\<lambda>u. u\<lparr>balance := balance recipient,
                                                 totalEarned := totalEarned recipient\<rparr>) s2;
                                  s4 = saveTransaction
                                         \<lparr>t_user = reqUser, t_type = DonationTxn,
                                          t_amount = - amount, t_balance = balance user,
                                          t_reference = RefId (d_id donation)\<rparr> s3;
                                  s5 = saveTransaction
                                         \<lparr>t_user = recipientId, t_type = DonationTxn,
                                          t_amount = amount, t_balance = balance recipient,
                                          t_reference = RefId (d_id donation)\<rparr> s4;
                                  s6 = updateChart chartId
                                         (\<lambda>c. c\<lparr>c_donations := c_donations chart @ [d_id donation],
                                                 totalDonations := totalDonations chart + amount\<rparr>)
                                         s5;
                                  n = \<lparr>n_user = recipientId, n_type = NDonation,
                                       n_data = DonationData chartId (d_id donation) amount reqUser\<rparr>;
                                  s7 = saveNotification n s6
                              in (Inr \<lparr>dr_donation = donation, dr_balance = balance user,
                                       dr_recipientBalance = balance recipient\<rparr>,
                                  send_to_user recipientId (NotificationMsg n) s7)))))"

section \<open>The ledger\<close>

text \<open>The sum of the signed amounts of a user's ledger entries.\<close>

definition ledger_sum :: "oid \<Rightarrow> state \<Rightarrow> int" where
  "ledger_sum uid s = sum_list (map t_amount (filter (\<lambda>t. t_user t = uid) (transactions s)))"

section \<open>Example states\<close>

text \<open>A user document with the schema's defaults, a given id, name and balance.\<close>

definition ex_user :: "oid \<Rightarrow> string \<Rightarrow> int \<Rightarrow> user" where
  "ex_user i name b =
     \<lparr>u_id = i, username = name, email = name @ ''@thumbsapp.io'', password = ''$2a$12$'',
      displayName = name, country = ''US'', chartsCreated = 0, chartsWon = 0,
      balance = b, totalEarned = 0, totalSupported = 0, u_status = Offline, lastSeen = 0\<rparr>"

text \<open>A chart with entry fee 20 for two participants, given its status and participants.\<close>

definition ex_chart :: "chart_status \<Rightarrow> oid list \<Rightarrow> chart" where
  "ex_chart st ps =
     \<lparr>c_id = 10, creator = 1, title = ''Speed chess'', entryFee = 20, prize = 40,
      prizePool = 20 * int (length ps), c_status = st,
      participants = map (\<lambda>u. \<lparr>p_user = u, p_joinedAt = 0, p_status = PPending\<rparr>) ps,
      maxParticipants = 2, minParticipants = 2, startsAt = 300000, endsAt = None,
      c_donations = [], totalDonations = 0, c_winner = None\<rparr>"

text \<open>Two open sockets, not yet authenticated.\<close>

definition ex_sockets :: "socket list" where
  "ex_sockets = [\<lparr>ws_id = 1, ws_userId = None, ws_arenas = [], ws_open = True\<rparr>,
                 \<lparr>ws_id = 2, ws_userId = None, ws_arenas = [], ws_open = True\<rparr>]"

text \<open>
  Three users; the chart is open and empty; nobody is connected.
\<close>

definition ex_open :: state where
  "ex_open =
     \<lparr>users = [ex_user 1 ''alice'' 100, ex_user 2 ''bob'' 50, ex_user 3 ''carol'' 100],
      charts = [ex_chart Open []],
      arenas = [], donations = [], transactions = [], notifications = [],
      connectedClients = [], sockets = ex_sockets, outbox = [], nextId = 20\<rparr>"

text \<open>
  The chart is full and in progress, its arena is live with both players at score 0;
  alice and bob are connected on sockets 1 and 2.
\<close>

definition ex_live :: state where
  "ex_live =
     \<lparr>users = [ex_user 1 ''alice'' 80, ex_user 2 ''bob'' 30, ex_user 3 ''carol'' 100],
      charts = [ex_chart InProgress [1, 2]],
      arenas = [\<lparr>a_id = 20, a_chart = 10,
                 players = [\<lparr>pl_user = 1, score = 0, moves = 0, pl_status = PlPlaying,
                             pl_joinedAt = 0\<rparr>,
                            \<lparr>pl_user = 2, score = 0, moves = 0, pl_status = PlPlaying,
                             pl_joinedAt = 0\<rparr>],
                 a_status = Live, spectators = [], chat = [], startedAt = Some 0,
                 endedAt = None, a_winner = None, a_updatedAt = 0\<rparr>],
      donations = [], transactions = [], notifications = [],
      connectedClients = [(1, \<lparr>cl_ws = 1, cl_userId = 1, cl_connectedAt = 0\<rparr>),
                          (2, \<lparr>cl_ws = 2, cl_userId = 2, cl_connectedAt = 0\<rparr>)],
      sockets = [\<lparr>ws_id = 1, ws_userId = Some 1, ws_arenas = [], ws_open = True\<rparr>,
                 \<lparr>ws_id = 2, ws_userId = Some 2, ws_arenas = [], ws_open = True\<rparr>,
                 \<lparr>ws_id = 3, ws_userId = None, ws_arenas = [], ws_open = True\<rparr>],
      outbox = [], nextId = 21\<rparr>"

section \<open>Error responses of the donation endpoint\<close>

text \<open>The responses \<open>POST /api/donations\<close> gives when one of its checks fails.\<close>

definition donation_errors :: "http_error list" where
  "donation_errors =
     [HttpError 400 ''Invalid donation amount'',
      HttpError 400 ''Minimum donation is 10 THB'',
      HttpError 400 ''Insufficient balance'',
      HttpError 404 ''Chart not found'',
      HttpError 404 ''Recipient not found'']"

text \<open>A registration request for a new user.\<close>

definition ex_register_req :: register_req where
  "ex_register_req =
     \<lparr>rq_username = ''Dave_01'', rq_email = ''Dave@Example.com'', rq_password = ''secret1'',
      rq_displayName = None, rq_country = None\<rparr>"

text \<open>Nothing stored, nobody connected.\<close>

definition ex_empty :: state where
  "ex_empty =
     \<lparr>users = [], charts = [], arenas = [], donations = [], transactions = [],
      notifications = [], connectedClients = [], sockets = [], outbox = [], nextId = 1\<rparr>"

text \<open>A request for a chart with entry fee 10.\<close>

definition ex_chart_req :: chart_req where
  "ex_chart_req =
     \<lparr>cq_title = ''Blitz'', cq_game = ''chess'', cq_entryFee = 10, cq_prize = None,
      cq_maxParticipants = None, cq_minParticipants = None\<rparr>"

text \<open>
  A new user registers, creates a chart with entry fee 10, and donates 30 on it to
  themself.
\<close>

definition ex_self_donation :: state where
  "ex_self_donation =
     snd (post_donations 3 1 2 1 30 None
       (snd (post_charts 2 1 ex_chart_req
         (snd (register (\<lambda>p. ''$2a$12$'' @ p) 1 ex_register_req ex_empty)))))"

text \<open>
  In the live example state carol authenticates on socket 3 and joins arena 20 as a
  spectator twice.
\<close>

definition ex_rejoin :: state where
  "ex_rejoin =
     on_message 3 3 (JoinArena 20)
       (on_message 2 3 (JoinArena 20) (on_message 1 3 (Auth (Some 3)) ex_live))"

section \<open>Runs of the server\<close>

text \<open>
  The requests that can change a balance or the ledger, and the realtime events (a score
  update may settle an arena). \<open>step\<close> is the state a request leaves, whatever it answers.
\<close>

datatype request =
  Register time register_req
  | PostDeposit oid int
  | PostCharts time oid chart_req
  | PostChartJoin time oid oid
  | PostDonations time oid oid oid int "string option"
  | PostArenaComplete time oid oid
  | WsMessage time handle in_msg
  | WsClose time handle

fun step :: "(string \<Rightarrow> string) \<Rightarrow> request \<Rightarrow> state \<Rightarrow> state" where
  "step hash (Register now rq) s = snd (register hash now rq s)"
| "step hash (PostDeposit reqUser amount) s = snd (post_deposit reqUser amount s)"
| "step hash (PostCharts now reqUser rq) s = snd (post_charts now reqUser rq s)"
| "step hash (PostChartJoin now reqUser chartId) s = snd (post_chart_join now reqUser chartId s)"
| "step hash (PostDonations now reqUser chartId recipientId amount message) s =
     snd (post_donations now reqUser chartId recipientId amount message s)"
| "step hash (PostArenaComplete now arenaId winnerId) s =
     snd (post_arena_complete now arenaId winnerId s)"
| "step hash (WsMessage now h msg) s = on_message now h msg s"
| "step hash (WsClose now h) s = on_close now h s"

text \<open>A donation whose recipient is the donor.\<close>

fun is_self_donation :: "request \<Rightarrow> bool" where
  "is_self_donation (PostDonations now reqUser chartId recipientId amount message) =
     (reqUser = recipientId)"
| "is_self_donation _ = False"

text \<open>
  The ledger agrees with the balances: user ids are distinct and below the next fresh id,
  every ledger entry belongs to an id below it, and every user's entries sum to the
  user's balance.
\<close>

definition ledger_ok :: "state \<Rightarrow> bool" where
  "ledger_ok s =
     (distinct (map u_id (users s))
      \<and> list_all (\<lambda>u. u_id u < nextId s \<and> ledger_sum (u_id u) s = balance u) (users s)
      \<and> list_all (\<lambda>t. t_user t < nextId s) (transactions s))"

section \<open>Facts about the primitives\<close>

lemma find_map_upd:
  assumes "find (\<lambda>x. k x = i) xs = Some x" and "k (f x) = i"
  shows "find (\<lambda>x. k x = i) (map (\<lambda>x. if k x = i then f x else x) xs) = Some (f x)"
  using assms by (induction xs) (auto split: if_splits)

lemma find_map_upd_None:
  assumes "find (\<lambda>x. k x = i) xs = None"
  shows "map (\<lambda>x. if k x = i then f x else x) xs = xs"
  using assms by (induction xs) (auto split: if_splits)

lemma find_map_upd_other:
  assumes "i \<noteq> j" and "\<And>x. k (f x) = k x"
  shows "find (\<lambda>x. k x = j) (map (\<lambda>x. if k x = i then f x else x) xs)
         = find (\<lambda>x. k x = j) xs"
  using assms by (induction xs) auto

lemma send_to_user_fields [simp]:
  "users (send_to_user u m s) = users s"
  "charts (send_to_user u m s) = charts s"
  "arenas (send_to_user u m s) = arenas s"
  "donations (send_to_user u m s) = donations s"
  "transactions (send_to_user u m s) = transactions s"
  "notifications (send_to_user u m s) = notifications s"
  "connectedClients (send_to_user u m s) = connectedClients s"
  "sockets (send_to_user u m s) = sockets s"
  "nextId (send_to_user u m s) = nextId s"
  by (simp_all add: send_to_user_def ws_send_def split: option.splits)

lemma notifyParticipant_fields [simp]:
  "users (notifyParticipant c w p pl s) = users s"
  "charts (notifyParticipant c w p pl s) = charts s"
  "arenas (notifyParticipant c w p pl s) = arenas s"
  "donations (notifyParticipant c w p pl s) = donations s"
  "transactions (notifyParticipant c w p pl s) = transactions s"
  "connectedClients (notifyParticipant c w p pl s) = connectedClients s"
  "sockets (notifyParticipant c w p pl s) = sockets s"
  "nextId (notifyParticipant c w p pl s) = nextId s"
  by (simp_all add: notifyParticipant_def saveNotification_def Let_def)

lemma fold_notifyParticipant_fields [simp]:
  "users (fold (notifyParticipant c w p) ps s) = users s"
  "charts (fold (notifyParticipant c w p) ps s) = charts s"
  "arenas (fold (notifyParticipant c w p) ps s) = arenas s"
  "donations (fold (notifyParticipant c w p) ps s) = donations s"
  "transactions (fold (notifyParticipant c w p) ps s) = transactions s"
  "connectedClients (fold (notifyParticipant c w p) ps s) = connectedClients s"
  "sockets (fold (notifyParticipant c w p) ps s) = sockets s"
  "nextId (fold (notifyParticipant c w p) ps s) = nextId s"
  by (induction ps arbitrary: s; simp)+

lemma fold_send_spectators_fields [simp]:
  fixes g :: "spectator \<Rightarrow> bool"
  shows
  "users (fold (\<lambda>sp st. if g sp then send_to_user (sp_user sp) m st else st) xs s) = users s"
  "charts (fold (\<lambda>sp st. if g sp then send_to_user (sp_user sp) m st else st) xs s) = charts s"
  "arenas (fold (\<lambda>sp st. if g sp then send_to_user (sp_user sp) m st else st) xs s) = arenas s"
  "donations (fold (\<lambda>sp st. if g sp then send_to_user (sp_user sp) m st else st) xs s) = donations s"
  "transactions (fold (\<lambda>sp st. if g sp then send_to_user (sp_user sp) m st else st) xs s) = transactions s"
  "notifications (fold (\<lambda>sp st. if g sp then send_to_user (sp_user sp) m st else st) xs s) = notifications s"
  "connectedClients (fold (\<lambda>sp st. if g sp then send_to_user (sp_user sp) m st else st) xs s) = connectedClients s"
  "sockets (fold (\<lambda>sp st. if g sp then send_to_user (sp_user sp) m st else st) xs s) = sockets s"
  "nextId (fold (\<lambda>sp st. if g sp then send_to_user (sp_user sp) m st else st) xs s) = nextId s"
  by (induction xs arbitrary: s; simp)+

lemma fold_send_players_fields [simp]:
  fixes g :: "player \<Rightarrow> bool"
  shows
  "users (fold (\<lambda>pl st. if g pl then send_to_user (pl_user pl) m st else st) xs s) = users s"
  "charts (fold (\<lambda>pl st. if g pl then send_to_user (pl_user pl) m st else st) xs s) = charts s"
  "arenas (fold (\<lambda>pl st. if g pl then send_to_user (pl_user pl) m st else st) xs s) = arenas s"
  "donations (fold (\<lambda>pl st. if g pl then send_to_user (pl_user pl) m st else st) xs s) = donations s"
  "transactions (fold (\<lambda>pl st. if g pl then send_to_user (pl_user pl) m st else st) xs s) = transactions s"
  "notifications (fold (\<lambda>pl st. if g pl then send_to_user (pl_user pl) m st else st) xs s) = notifications s"
  "connectedClients (fold (\<lambda>pl st. if g pl then send_to_user (pl_user pl) m st else st) xs s) = connectedClients s"
  "sockets (fold (\<lambda>pl st. if g pl then send_to_user (pl_user pl) m st else st) xs s) = sockets s"
  "nextId (fold (\<lambda>pl st. if g pl then send_to_user (pl_user pl) m st else st) xs s) = nextId s"
  by (induction xs arbitrary: s; simp)+

lemma broadcastToArena_fields [simp]:
  "users (broadcastToArena a m e s) = users s"
  "charts (broadcastToArena a m e s) = charts s"
  "arenas (broadcastToArena a m e s) = arenas s"
  "donations (broadcastToArena a m e s) = donations s"
  "transactions (broadcastToArena a m e s) = transactions s"
  "notifications (broadcastToArena a m e s) = notifications s"
  "connectedClients (broadcastToArena a m e s) = connectedClients s"
  "sockets (broadcastToArena a m e s) = sockets s"
  "nextId (broadcastToArena a m e s) = nextId s"
  by (simp_all add: broadcastToArena_def Let_def split: option.splits)

lemmas ex_defs = ex_live_def ex_open_def ex_user_def ex_chart_def ex_sockets_def
lemmas prim_defs = findUser_def findChart_def findArena_def updateUser_def updateChart_def
  updateArena_def saveTransaction_def saveNotification_def ws_send_def socket_open_def
  send_to_user_def broadcastToArena_def broadcastToAll_def notifyParticipant_def
  findSocket_def updateSocket_def

lemma findArena_id: "findArena i s = Some a \<Longrightarrow> a_id a = i"
  by (auto simp: findArena_def find_Some_iff)

lemma findChart_id: "findChart i s = Some c \<Longrightarrow> c_id c = i"
  by (auto simp: findChart_def find_Some_iff)

lemma findUser_id: "findUser i s = Some u \<Longrightarrow> u_id u = i"
  by (auto simp: findUser_def find_Some_iff)

lemma findArena_updateArena:
  "findArena i s = Some a \<Longrightarrow> a_id (f a) = i \<Longrightarrow> findArena i (updateArena i f s) = Some (f a)"
  by (simp add: findArena_def updateArena_def find_map_upd)

lemma findUser_updateUser:
  "findUser i s = Some u \<Longrightarrow> u_id (f u) = i \<Longrightarrow> findUser i (updateUser i f s) = Some (f u)"
  by (simp add: findUser_def updateUser_def find_map_upd)

lemma findChart_updateChart:
  "findChart i s = Some c \<Longrightarrow> c_id (f c) = i \<Longrightarrow> findChart i (updateChart i f s) = Some (f c)"
  by (simp add: findChart_def updateChart_def find_map_upd)

lemma find_frames [simp]:
  "findArena i (updateChart j g s) = findArena i s"
  "findArena i (updateUser j h s) = findArena i s"
  "findArena i (saveTransaction t s) = findArena i s"
  "findArena i (saveNotification n s) = findArena i s"
  "findChart i (updateArena j f s) = findChart i s"
  "findChart i (updateUser j h s) = findChart i s"
  "findChart i (saveTransaction t s) = findChart i s"
  "findChart i (saveNotification n s) = findChart i s"
  "findUser i (updateArena j f s) = findUser i s"
  "findUser i (updateChart j g s) = findUser i s"
  "findUser i (saveTransaction t s) = findUser i s"
  "findUser i (saveNotification n s) = findUser i s"
  by (simp_all add: findArena_def findChart_def findUser_def updateArena_def updateChart_def
        updateUser_def saveTransaction_def saveNotification_def)

lemma find_frames_send [simp]:
  "findArena i (fold (notifyParticipant c w p) ps s) = findArena i s"
  "findArena i (broadcastToArena a m e s) = findArena i s"
  "findArena i (send_to_user u m s) = findArena i s"
  "findChart i (fold (notifyParticipant c w p) ps s) = findChart i s"
  "findChart i (broadcastToArena a m e s) = findChart i s"
  "findChart i (send_to_user u m s) = findChart i s"
  "findUser i (fold (notifyParticipant c w p) ps s) = findUser i s"
  "findUser i (broadcastToArena a m e s) = findUser i s"
  "findUser i (send_to_user u m s) = findUser i s"
  by (simp_all add: findArena_def findUser_def findChart_def)

lemma field_frames [simp]:
  "transactions (updateArena j f s) = transactions s"
  "transactions (updateChart j g s) = transactions s"
  "transactions (updateUser j h s) = transactions s"
  "transactions (saveNotification n s) = transactions s"
  "transactions (saveTransaction t s) = transactions s @ [t]"
  "users (updateArena j f s) = users s"
  "users (updateChart j g s) = users s"
  "users (saveTransaction t s) = users s"
  "users (saveNotification n s) = users s"
  "charts (updateArena j f s) = charts s"
  "charts (updateUser j h s) = charts s"
  "charts (saveTransaction t s) = charts s"
  "charts (saveNotification n s) = charts s"
  "arenas (updateChart j g s) = arenas s"
  "arenas (updateUser j h s) = arenas s"
  "arenas (saveTransaction t s) = arenas s"
  "arenas (saveNotification n s) = arenas s"
  "donations (updateArena j f s) = donations s"
  "donations (updateChart j g s) = donations s"
  "donations (updateUser j h s) = donations s"
  "donations (saveTransaction t s) = donations s"
  "donations (saveNotification n s) = donations s"
  by (simp_all add: updateArena_def updateChart_def updateUser_def saveTransaction_def
        saveNotification_def)

text \<open>What a settling call of \<open>completeArena\<close> has read and what it returns.\<close>

lemma completeArena_SomeD:
  assumes "completeArena now arenaId winnerId s = (Inr (Some r), s')"
  obtains arena chart winner0 where
    "findArena arenaId s = Some arena" "a_status arena \<noteq> Finished"
    "findChart (a_chart arena) s = Some chart"
    "findUser winnerId s = Some winner0"
    "r = \<lparr>r_winner = winner0\<lparr>balance := balance winner0 + entryFee chart * int (length (participants chart)),
                                totalEarned := totalEarned winner0 + entryFee chart * int (length (participants chart)),
                                chartsWon := chartsWon winner0 + 1\<rparr>,
           r_prize = entryFee chart * int (length (participants chart))\<rparr>"
    "findArena arenaId s'
       = Some (arena\<lparr>a_status := Finished, endedAt := Some now, a_winner := Some winnerId\<rparr>)"
    "findUser winnerId s'
       = Some (winner0\<lparr>balance := balance winner0 + entryFee chart * int (length (participants chart)),
                       totalEarned := totalEarned winner0 + entryFee chart * int (length (participants chart)),
                       chartsWon := chartsWon winner0 + 1\<rparr>)"
    "transactions s' = transactions s @
       [\<lparr>t_user = winnerId, t_type = Prize,
         t_amount = entryFee chart * int (length (participants chart)),
         t_balance = balance winner0 + entryFee chart * int (length (participants chart)),
         t_reference = RefId (a_chart arena)\<rparr>]"
proof -
  from assms obtain arena where a: "findArena arenaId s = Some arena" "a_status arena \<noteq> Finished"
    by (auto simp: completeArena_def split: option.splits if_splits)
  from assms a obtain chart where c: "findChart (a_chart arena) s = Some chart"
    by (auto simp: completeArena_def Let_def split: option.splits)
  from assms a c obtain winner0 where w: "findUser winnerId s = Some winner0"
    by (auto simp: completeArena_def Let_def split: option.splits)
  note ids = findArena_id[OF a(1)] findChart_id[OF c] findUser_id[OF w]
  let ?p = "entryFee chart * int (length (participants chart))"
  from assms a c w have r: "r = \<lparr>r_winner = winner0\<lparr>balance := balance winner0 + ?p,
        totalEarned := totalEarned winner0 + ?p, chartsWon := chartsWon winner0 + 1\<rparr>, r_prize = ?p\<rparr>"
    by (auto simp: completeArena_def Let_def)
  from assms a c w have s': "s' = broadcastToArena arenaId (ArenaCompleted arenaId winnerId ?p) None
       (fold (notifyParticipant (c_id chart) winnerId ?p) (players arena)
         (saveTransaction \<lparr>t_user = winnerId, t_type = Prize, t_amount = ?p,
              t_balance = balance winner0 + ?p, t_reference = RefId (c_id chart)\<rparr>
           (updateUser winnerId (\<lambda>u. u\<lparr>balance := balance winner0 + ?p,
                  totalEarned := totalEarned winner0 + ?p, chartsWon := chartsWon winner0 + 1\<rparr>)
             (updateChart (c_id chart) (\<lambda>c. c\<lparr>c_status := Completed, c_winner := Some winnerId,
                    endsAt := Some now\<rparr>)
               (updateArena arenaId (\<lambda>a. a\<lparr>a_status := Finished, endedAt := Some now,
                      a_winner := Some winnerId\<rparr>) s)))))"
    by (auto simp: completeArena_def Let_def)
  have fa: "findArena arenaId s'
       = Some (arena\<lparr>a_status := Finished, endedAt := Some now, a_winner := Some winnerId\<rparr>)"
    unfolding s' using a(1) ids(1) by (simp add: findArena_updateArena)
  have fu: "findUser winnerId s' = Some (winner0\<lparr>balance := balance winner0 + ?p,
        totalEarned := totalEarned winner0 + ?p, chartsWon := chartsWon winner0 + 1\<rparr>)"
  proof -
    have "findUser winnerId s' = Some ((\<lambda>u. u\<lparr>balance := balance winner0 + ?p,
        totalEarned := totalEarned winner0 + ?p, chartsWon := chartsWon winner0 + 1\<rparr>) winner0)"
      unfolding s' using w ids(3) by (simp add: findUser_updateUser)
    then show ?thesis by simp
  qed
  have tr: "transactions s' = transactions s @ [\<lparr>t_user = winnerId, t_type = Prize, t_amount = ?p,
         t_balance = balance winner0 + ?p, t_reference = RefId (a_chart arena)\<rparr>]"
    unfolding s' using ids(2) by simp
  show thesis using that[OF a c w r fa fu tr] .
qed

section \<open>Settlement runs once\<close>

text \<open>
  Claim C1, as the code has it. After a call of \<open>completeArena\<close> that settled the arena,
  a second call for the same arena, at any time and for any winner, changes nothing: no
  balance, no ledger entry, no notification, no message. It returns \<open>undefined\<close>, not the
  settled result and not an error. A second request to the HTTP endpoint changes nothing
  either.
\<close>

theorem completeArena_second_call_noop:
  assumes "completeArena t1 arenaId w1 s = (Inr (Some r), s1)"
  shows "completeArena t2 arenaId w2 s1 = (Inr None, s1)
       \<and> snd (post_arena_complete t2 arenaId w2 s1) = s1"
proof -
  from assms obtain arena where
    "findArena arenaId s1
       = Some (arena\<lparr>a_status := Finished, endedAt := Some t1, a_winner := Some w1\<rparr>)"
    by (rule completeArena_SomeD)
  then have "completeArena t2 arenaId w2 s1 = (Inr None, s1)"
    by (simp add: completeArena_def)
  then show ?thesis by (simp add: post_arena_complete_def)
qed

text \<open>The theorem at the live example arena, settled for alice at time 5.\<close>

theorem completeArena_second_call_noop_witness:
  "fst (completeArena 5 20 1 ex_live)
     = Inr (Some \<lparr>r_winner = (ex_user 1 ''alice'' 120)\<lparr>totalEarned := 40, chartsWon := 1\<rparr>,
                  r_prize = 40\<rparr>)
   \<and> completeArena 6 20 2 (snd (completeArena 5 20 1 ex_live))
       = (Inr None, snd (completeArena 5 20 1 ex_live))
   \<and> snd (post_arena_complete 6 20 2 (snd (completeArena 5 20 1 ex_live)))
       = snd (completeArena 5 20 1 ex_live)"
proof -
  have "\<exists>r s1. completeArena 5 20 1 ex_live = (Inr (Some r), s1)"
    by (simp add: completeArena_def ex_defs prim_defs Let_def)
  then obtain r s1 where e: "completeArena 5 20 1 ex_live = (Inr (Some r), s1)" by blast
  have "fst (completeArena 5 20 1 ex_live)
     = Inr (Some \<lparr>r_winner = (ex_user 1 ''alice'' 120)\<lparr>totalEarned := 40, chartsWon := 1\<rparr>,
                  r_prize = 40\<rparr>)"
    by (simp add: completeArena_def ex_defs prim_defs Let_def)
  with completeArena_second_call_noop [OF e, of 6 2] e show ?thesis by simp
qed

text \<open>
  Claim C1 as stated fails in what the second call returns: at the live example arena the
  first call returns the settled result, the second returns \<open>undefined\<close>, which is
  neither that result nor a conflict error, and the endpoint answers 500.
\<close>

theorem completeArena_second_call_result_counterexample:
  "fst (completeArena 5 20 1 ex_live)
     = Inr (Some \<lparr>r_winner = (ex_user 1 ''alice'' 120)\<lparr>totalEarned := 40, chartsWon := 1\<rparr>,
                  r_prize = 40\<rparr>)
   \<and> fst (completeArena 6 20 1 (snd (completeArena 5 20 1 ex_live))) = Inr None
   \<and> fst (post_arena_complete 6 20 1 (snd (completeArena 5 20 1 ex_live)))
       = Inl (HttpError 500 ''Failed to complete arena'')"
  by (simp add: post_arena_complete_def completeArena_def ex_defs prim_defs Let_def)

section \<open>The prize\<close>

text \<open>
  Claim C3. When \<open>completeArena\<close> settles an arena whose chart has entry fee \<open>f\<close> and
  \<open>n\<close> participants, the prize it returns is \<open>f * n\<close>, whatever \<open>prizePool\<close> holds;
  the winner's balance and \<open>totalEarned\<close> grow by \<open>f * n\<close>, \<open>chartsWon\<close> by one, and
  the ledger grows by exactly one entry: type prize, amount \<open>f * n\<close>, the new balance,
  referencing the chart.
\<close>

theorem completeArena_prize:
  assumes "completeArena now arenaId winnerId s = (Inr (Some r), s')"
    and "findArena arenaId s = Some arena"
    and "findChart (a_chart arena) s = Some chart"
    and "findUser winnerId s = Some winner"
  shows "r_prize r = entryFee chart * int (length (participants chart))
       \<and> findUser winnerId s'
           = Some (winner\<lparr>balance := balance winner + entryFee chart * int (length (participants chart)),
                          totalEarned := totalEarned winner + entryFee chart * int (length (participants chart)),
                          chartsWon := chartsWon winner + 1\<rparr>)
       \<and> transactions s' = transactions s @
           [\<lparr>t_user = winnerId, t_type = Prize,
             t_amount = entryFee chart * int (length (participants chart)),
             t_balance = balance winner + entryFee chart * int (length (participants chart)),
             t_reference = RefId (c_id chart)\<rparr>]"
  using assms(1)
proof (rule completeArena_SomeD)
  fix arena' chart' winner0
  assume "findArena arenaId s = Some arena'" "findChart (a_chart arena') s = Some chart'"
    "findUser winnerId s = Some winner0"
  with assms(2-4) have eq: "arena' = arena" "chart' = chart" "winner0 = winner" by simp_all
  assume "r = \<lparr>r_winner = winner0\<lparr>balance := balance winner0 + entryFee chart' * int (length (participants chart')),
                                totalEarned := totalEarned winner0 + entryFee chart' * int (length (participants chart')),
                                chartsWon := chartsWon winner0 + 1\<rparr>,
           r_prize = entryFee chart' * int (length (participants chart'))\<rparr>"
    "findUser winnerId s'
       = Some (winner0\<lparr>balance := balance winner0 + entryFee chart' * int (length (participants chart')),
                       totalEarned := totalEarned winner0 + entryFee chart' * int (length (participants chart')),
                       chartsWon := chartsWon winner0 + 1\<rparr>)"
    "transactions s' = transactions s @
       [\<lparr>t_user = winnerId, t_type = Prize,
         t_amount = entryFee chart' * int (length (participants chart')),
         t_balance = balance winner0 + entryFee chart' * int (length (participants chart')),
         t_reference = RefId (a_chart arena')\<rparr>]"
  then show ?thesis using eq findChart_id[OF assms(3)] by simp
qed

text \<open>The theorem at the live example arena: fee 20, two participants, alice wins 40.\<close>

theorem completeArena_prize_witness:
  "r_prize (the (projr (fst (completeArena 5 20 1 ex_live)))) = 40
   \<and> findUser 1 (snd (completeArena 5 20 1 ex_live))
       = Some ((ex_user 1 ''alice'' 120)\<lparr>totalEarned := 40, chartsWon := 1\<rparr>)
   \<and> transactions (snd (completeArena 5 20 1 ex_live))
       = [\<lparr>t_user = 1, t_type = Prize, t_amount = 40, t_balance = 120,
           t_reference = RefId 10\<rparr>]"
proof -
  have "\<exists>r s1. completeArena 5 20 1 ex_live = (Inr (Some r), s1)"
    by (simp add: completeArena_def ex_defs prim_defs Let_def)
  then obtain r s1 where e: "completeArena 5 20 1 ex_live = (Inr (Some r), s1)" by blast
  have fa: "findArena 20 ex_live = Some (hd (arenas ex_live))"
    by (simp add: ex_defs prim_defs)
  have fc: "findChart (a_chart (hd (arenas ex_live))) ex_live = Some (ex_chart InProgress [1, 2])"
    by (simp add: ex_defs prim_defs)
  have fu: "findUser 1 ex_live = Some (ex_user 1 ''alice'' 80)"
    by (simp add: ex_defs prim_defs)
  from completeArena_prize [OF e fa fc fu] e show ?thesis
    by (simp add: ex_defs)
qed

section \<open>The connection registry\<close>

lemma fold_broadcastToAll_fields [simp]:
  "users (fold (\<lambda>(uid, c) st. if g uid c st then ws_send (cl_ws c) m st else st) xs s) = users s"
  "connectedClients (fold (\<lambda>(uid, c) st. if g uid c st then ws_send (cl_ws c) m st else st) xs s)
     = connectedClients s"
  "sockets (fold (\<lambda>(uid, c) st. if g uid c st then ws_send (cl_ws c) m st else st) xs s) = sockets s"
  "arenas (fold (\<lambda>(uid, c) st. if g uid c st then ws_send (cl_ws c) m st else st) xs s) = arenas s"
  by (induction xs arbitrary: s; simp add: ws_send_def split: prod.splits)+

lemma broadcastToAll_fields [simp]:
  "users (broadcastToAll m e s) = users s"
  "connectedClients (broadcastToAll m e s) = connectedClients s"
  "sockets (broadcastToAll m e s) = sockets s"
  "arenas (broadcastToAll m e s) = arenas s"
  unfolding broadcastToAll_def by simp_all

lemma pullSpectator_fields [simp]:
  "connectedClients (pullSpectator a u s) = connectedClients s"
  "sockets (pullSpectator a u s) = sockets s"
  "users (pullSpectator a u s) = users s"
  by (simp_all add: pullSpectator_def updateArena_def)

lemma fold_leave_fields [simp]:
  "connectedClients (fold (\<lambda>arenaId st. broadcastToArena arenaId (SpectatorLeft u arenaId) None
       (pullSpectator arenaId u st)) as s) = connectedClients s"
  "sockets (fold (\<lambda>arenaId st. broadcastToArena arenaId (SpectatorLeft u arenaId) None
       (pullSpectator arenaId u st)) as s) = sockets s"
  by (induction as arbitrary: s; simp)+

lemma auth_clients:
  assumes "findSocket h s = Some ws"
  shows "connectedClients (on_message t h (Auth (Some u)) s)
         = AList.update u \<lparr>cl_ws = h, cl_userId = u, cl_connectedAt = t\<rparr> (connectedClients s)"
  using assms by (simp add: on_message_def Let_def updateUser_def ws_send_def updateSocket_def)

lemma auth_sockets:
  assumes "findSocket h s = Some ws"
  shows "sockets (on_message t h (Auth (Some u)) s)
         = map (\<lambda>w. if ws_id w = h then w\<lparr>ws_userId := Some u\<rparr> else w) (sockets s)"
  using assms by (simp add: on_message_def Let_def updateUser_def ws_send_def updateSocket_def)

lemma findSocket_id: "findSocket h s = Some w \<Longrightarrow> ws_id w = h"
  by (auto simp: findSocket_def find_Some_iff)

lemma auth_findSocket_same:
  assumes "findSocket h s = Some ws"
  shows "findSocket h (on_message t h (Auth (Some u)) s) = Some (ws\<lparr>ws_userId := Some u\<rparr>)"
  using assms findSocket_id[OF assms]
  by (simp add: findSocket_def auth_sockets[OF assms] find_map_upd)

lemma auth_findSocket_other:
  assumes "findSocket h s = Some ws" and "h \<noteq> h'"
  shows "findSocket h' (on_message t h (Auth (Some u)) s) = findSocket h' s"
  using assms by (simp add: findSocket_def auth_sockets[OF assms(1)] find_map_upd_other)

lemma close_clients:
  assumes "findSocket h s = Some ws" and "ws_userId ws = Some u"
  shows "connectedClients (on_close t h s) = AList.delete u (connectedClients s)"
proof -
  have "findSocket h (updateSocket h (\<lambda>w. w\<lparr>ws_open := False\<rparr>) s) = Some (ws\<lparr>ws_open := False\<rparr>)"
    using assms(1) findSocket_id[OF assms(1)]
    by (simp add: findSocket_def updateSocket_def find_map_upd)
  then show ?thesis using assms(2)
    by (simp add: on_close_def Let_def updateUser_def updateSocket_def)
qed

text \<open>
  Claim C8, as the code has it. An \<open>auth\<close> message registers the socket's handle for the
  user and replaces the handle stored before. The \<open>close\<close> handler deletes the entry of
  the closing socket's user without looking at the handle stored: after \<open>u\<close> registers on
  \<open>h1\<close>, registers again on \<open>h2\<close>, and \<open>h1\<close> closes, the lookup of \<open>u\<close> finds nothing.
\<close>

theorem close_evicts_newer_session:
  assumes "findSocket h1 s \<noteq> None" and "findSocket h2 s \<noteq> None"
  shows "lookup u (on_message t1 h1 (Auth (Some u)) s) = Some h1
       \<and> lookup u (on_message t2 h2 (Auth (Some u)) (on_message t1 h1 (Auth (Some u)) s)) = Some h2
       \<and> lookup u (on_close t3 h1
            (on_message t2 h2 (Auth (Some u)) (on_message t1 h1 (Auth (Some u)) s))) = None"
proof -
  from assms obtain w1 w2 where w: "findSocket h1 s = Some w1" "findSocket h2 s = Some w2"
    by auto
  let ?s1 = "on_message t1 h1 (Auth (Some u)) s"
  let ?s2 = "on_message t2 h2 (Auth (Some u)) ?s1"
  have a: "lookup u ?s1 = Some h1"
    by (simp add: lookup_def auth_clients[OF w(1)] update_conv')
  have f1: "findSocket h1 ?s1 = Some (w1\<lparr>ws_userId := Some u\<rparr>)"
    by (rule auth_findSocket_same[OF w(1)])
  obtain w2' where f2: "findSocket h2 ?s1 = Some w2'"
    using f1 w(2) auth_findSocket_other[OF w(1), of h2 t1 u] by (cases "h1 = h2") auto
  have b: "lookup u ?s2 = Some h2"
    by (simp add: lookup_def auth_clients[OF f2] update_conv')
  obtain w1' where f3: "findSocket h1 ?s2 = Some w1'" "ws_userId w1' = Some u"
  proof (cases "h1 = h2")
    case True
    with auth_findSocket_same[OF f2, of t2 u] that show ?thesis by simp
  next
    case False
    with auth_findSocket_other[OF f2, of h1 t2 u] f1 that show ?thesis by simp
  qed
  have c: "lookup u (on_close t3 h1 ?s2) = None"
    by (simp add: lookup_def close_clients[OF f3] delete_conv')
  from a b c show ?thesis by simp
qed

text \<open>The theorem for alice on the two sockets of the open example state.\<close>

theorem close_evicts_newer_session_witness:
  "lookup 1 (on_message 1 1 (Auth (Some 1)) ex_open) = Some 1
   \<and> lookup 1 (on_message 2 2 (Auth (Some 1)) (on_message 1 1 (Auth (Some 1)) ex_open)) = Some 2
   \<and> lookup 1 (on_close 3 1
        (on_message 2 2 (Auth (Some 1)) (on_message 1 1 (Auth (Some 1)) ex_open))) = None"
proof -
  have h1: "findSocket 1 ex_open \<noteq> None" and h2: "findSocket 2 ex_open \<noteq> None"
    by (simp_all add: findSocket_def ex_defs)
  from close_evicts_newer_session [OF h1 h2, of 1 1 2 3] show ?thesis .
qed

text \<open>
  Claim C8 as stated fails: alice registers on socket 1, then on socket 2, then socket 1
  closes. The lookup of alice had returned handle 2; after the stale close it does not.
\<close>

theorem stale_close_counterexample:
  "lookup 1 (on_message 2 2 (Auth (Some 1)) (on_message 1 1 (Auth (Some 1)) ex_open)) = Some 2
   \<and> lookup 1 (on_close 3 1
        (on_message 2 2 (Auth (Some 1)) (on_message 1 1 (Auth (Some 1)) ex_open))) \<noteq> Some 2"
  by (simp add: lookup_def on_message_def on_close_def ex_defs prim_defs Let_def)

section \<open>Donations that fail a check\<close>

text \<open>
  Claim C9. A donation request whose amount is not positive or is below the minimum of
  10, whose donor has less than the amount, whose chart is not found or whose recipient is
  not found is answered with an error and leaves the whole state as it was: no donation,
  no ledger entry, no balance, counter or chart change. When the donor's document exists
  the error is one of the endpoint's own 400 and 404 responses.
\<close>

theorem donation_precondition_failure:
  assumes "amount \<le> 0 \<or> amount < 10
           \<or> (\<exists>d. findUser reqUser s = Some d \<and> balance d < amount)
           \<or> findChart chartId s = None \<or> findUser recipientId s = None"
  shows "\<exists>e. post_donations now reqUser chartId recipientId amount message s = (Inl e, s)
             \<and> (findUser reqUser s \<noteq> None \<longrightarrow> e \<in> set donation_errors)"
  using assms
  by (auto simp: post_donations_def donation_errors_def Let_def split: option.splits)

text \<open>The theorem for bob, who holds 50 and asks to donate 60.\<close>

theorem donation_precondition_failure_witness:
  "post_donations 7 2 10 1 60 None ex_open = (Inl (HttpError 400 ''Insufficient balance''), ex_open)
   \<and> HttpError 400 ''Insufficient balance'' \<in> set donation_errors"
proof -
  have d: "findUser 2 ex_open = Some (ex_user 2 ''bob'' 50)"
    by (simp add: ex_defs prim_defs)
  then have "(60::int) \<le> 0 \<or> (60::int) < 10
           \<or> (\<exists>d. findUser 2 ex_open = Some d \<and> balance d < 60)
           \<or> findChart 10 ex_open = None \<or> findUser 1 ex_open = None"
    by (simp add: ex_user_def)
  from donation_precondition_failure [OF this, of 7 None] d
  obtain e where "post_donations 7 2 10 1 60 None ex_open = (Inl e, ex_open)"
    "e \<in> set donation_errors" by auto
  moreover have "fst (post_donations 7 2 10 1 60 None ex_open)
      = Inl (HttpError 400 ''Insufficient balance'')"
    by (simp add: post_donations_def ex_defs prim_defs)
  ultimately show ?thesis by simp
qed

section \<open>Registration\<close>

text \<open>
  Claim C10. A successful registration creates the user with balance 100 and appends
  exactly one ledger entry: type bonus, amount 100, recorded balance 100. When no earlier
  ledger entry carries the new id, the user's ledger sums to the user's balance.
\<close>

theorem register_welcome_bonus:
  assumes "register hash now rq s = (Inr (tok, u), s')"
  shows "balance u = 100 \<and> u_id u = nextId s
       \<and> users s' = users s @ [u]
       \<and> transactions s' = transactions s @
           [\<lparr>t_user = u_id u, t_type = Bonus, t_amount = 100, t_balance = 100,
             t_reference = NoRef\<rparr>]
       \<and> ((\<forall>t \<in> set (transactions s). t_user t \<noteq> nextId s)
            \<longrightarrow> ledger_sum (u_id u) s' = balance u)"
proof -
  from assms have u: "balance u = 100" "u_id u = nextId s" and us: "users s' = users s @ [u]"
    and tr: "transactions s' = transactions s @
           [\<lparr>t_user = u_id u, t_type = Bonus, t_amount = 100, t_balance = 100,
             t_reference = NoRef\<rparr>]"
    by (auto simp: register_def Let_def saveTransaction_def split: if_splits option.splits)
  have "ledger_sum (u_id u) s' = balance u" if "\<forall>t \<in> set (transactions s). t_user t \<noteq> nextId s"
  proof -
    from that have "filter (\<lambda>t. t_user t = nextId s) (transactions s) = []"
      by (simp add: filter_empty_conv)
    then show ?thesis by (simp add: ledger_sum_def tr u)
  qed
  with u us tr show ?thesis by blast
qed

lemmas string_defs = is_word_def toLowerCase_def toUpperCase_def upper_chars_def
  lower_chars_def digit_chars_def trim_def is_space_def js_or_str_def

text \<open>The theorem for a new user registering in the open example state.\<close>

theorem register_welcome_bonus_witness:
  "fst (register (\<lambda>p. ''$2a$12$'' @ p) 9 ex_register_req ex_open)
     = Inr ((20, ''dave_01''),
            \<lparr>u_id = 20, username = ''dave_01'', email = ''dave@example.com'',
             password = ''$2a$12$secret1'', displayName = ''Dave_01'', country = ''US'',
             chartsCreated = 0, chartsWon = 0, balance = 100, totalEarned = 0,
             totalSupported = 0, u_status = Offline, lastSeen = 9\<rparr>)
   \<and> transactions (snd (register (\<lambda>p. ''$2a$12$'' @ p) 9 ex_register_req ex_open))
       = [\<lparr>t_user = 20, t_type = Bonus, t_amount = 100, t_balance = 100, t_reference = NoRef\<rparr>]
   \<and> ledger_sum 20 (snd (register (\<lambda>p. ''$2a$12$'' @ p) 9 ex_register_req ex_open)) = 100"
proof -
  let ?r = "register (\<lambda>p. ''$2a$12$'' @ p) 9 ex_register_req ex_open"
  have v: "fst ?r = Inr ((20, ''dave_01''),
            \<lparr>u_id = 20, username = ''dave_01'', email = ''dave@example.com'',
             password = ''$2a$12$secret1'', displayName = ''Dave_01'', country = ''US'',
             chartsCreated = 0, chartsWon = 0, balance = 100, totalEarned = 0,
             totalSupported = 0, u_status = Offline, lastSeen = 9\<rparr>)"
    by (simp add: register_def ex_register_req_def ex_defs prim_defs Let_def string_defs)
  then obtain u s' where e: "?r = (Inr ((20, ''dave_01''), u), s')"
    by (cases ?r) auto
  have t: "transactions ex_open = []" and n: "nextId ex_open = 20"
    by (simp_all add: ex_defs)
  from register_welcome_bonus [OF e] v e t n show ?thesis by simp
qed

section \<open>Joining until the chart is full\<close>

lemma notifyMatchStart_fields [simp]:
  "users (notifyMatchStart c a p s) = users s"
  "charts (notifyMatchStart c a p s) = charts s"
  "arenas (notifyMatchStart c a p s) = arenas s"
  "donations (notifyMatchStart c a p s) = donations s"
  "transactions (notifyMatchStart c a p s) = transactions s"
  "nextId (notifyMatchStart c a p s) = nextId s"
  by (simp_all add: notifyMatchStart_def saveNotification_def Let_def)

lemma fold_notifyMatchStart_fields [simp]:
  "users (fold (notifyMatchStart c a) ps s) = users s"
  "charts (fold (notifyMatchStart c a) ps s) = charts s"
  "arenas (fold (notifyMatchStart c a) ps s) = arenas s"
  "donations (fold (notifyMatchStart c a) ps s) = donations s"
  "transactions (fold (notifyMatchStart c a) ps s) = transactions s"
  "nextId (fold (notifyMatchStart c a) ps s) = nextId s"
  by (induction ps arbitrary: s; simp)+

lemma find_frames_ms [simp]:
  "findChart i (fold (notifyMatchStart c a) ps s) = findChart i s"
  "findUser i (fold (notifyMatchStart c a) ps s) = findUser i s"
  "findArena i (fold (notifyMatchStart c a) ps s) = findArena i s"
  by (simp_all add: findChart_def findUser_def findArena_def)

lemma find_frames_ms1 [simp]:
  "findChart i (notifyMatchStart c a p s) = findChart i s"
  "findUser i (notifyMatchStart c a p s) = findUser i s"
  "findArena i (notifyMatchStart c a p s) = findArena i s"
  by (simp_all add: findChart_def findUser_def findArena_def)

lemma findChart_other_fields [simp]:
  "findChart i (arenas_update fa s) = findChart i s"
  "findChart i (nextId_update fn s) = findChart i s"
  "findChart i (donations_update fd s) = findChart i s"
  by (simp_all add: findChart_def)

lemma join_not_open:
  assumes "findChart chartId s = Some c" and "c_status c \<noteq> Open"
  shows "post_chart_join now reqUser chartId s = (Inl (HttpError 400 ''Chart is not open''), s)"
  using assms by (simp add: post_chart_join_def)

text \<open>
  Claim C5, as the code has it. When a join succeeds and brings the chart to its maximum
  number of participants (the second join of a chart for two with entry fee 20, say), the
  chart is in progress and one arena is created for it, the only one when none existed:
  live, its players the chart's participants at that moment, each with score 0, no moves
  and status playing. Every later attempt to join that chart, by anyone, is answered 400
  \<open>Chart is not open\<close> (the status check comes before the capacity check) and changes
  nothing.
\<close>

theorem join_fills_chart:
  assumes "post_chart_join now reqUser chartId s = (Inr chart, s')"
    and "int (length (participants chart)) \<ge> maxParticipants chart"
  shows "c_status chart = InProgress
       \<and> findChart chartId s' = Some chart
       \<and> arenas s' = arenas s @
           [\<lparr>a_id = nextId s, a_chart = chartId,
             players = map (\<lambda>p. \<lparr>pl_user = p_user p, score = 0, moves = 0,
                                  pl_status = PlPlaying, pl_joinedAt = now\<rparr>)
                         (participants chart),
             a_status = Live, spectators = [], chat = [], startedAt = Some now,
             endedAt = None, a_winner = None, a_updatedAt = now\<rparr>]
       \<and> ((\<forall>a \<in> set (arenas s). a_chart a \<noteq> chartId)
            \<longrightarrow> length (filter (\<lambda>a. a_chart a = chartId) (arenas s')) = 1)
       \<and> (\<forall>t u. post_chart_join t u chartId s'
                  = (Inl (HttpError 400 ''Chart is not open''), s'))"
proof -
  from assms(1) obtain c0 where c0: "findChart chartId s = Some c0"
    by (auto simp: post_chart_join_def split: option.splits)
  note id = findChart_id[OF c0]
  from assms(1) c0 obtain u0 where u0: "findUser reqUser s = Some u0"
    by (auto simp: post_chart_join_def split: option.splits if_splits)
  define c1 where "c1 = c0\<lparr>prizePool := prizePool c0 + entryFee c0,
                 participants := participants c0 @
                   [\<lparr>p_user = reqUser, p_joinedAt = now, p_status = PPending\<rparr>]\<rparr>"
  define s2 where "s2 = saveTransaction
                 \<lparr>t_user = reqUser, t_type = EntryFee, t_amount = - entryFee c0,
                  t_balance = balance u0 - entryFee c0, t_reference = RefId (c_id c0)\<rparr>
                 (updateUser reqUser (\<lambda>u. u\<lparr>balance := balance u0 - entryFee c0\<rparr>) s)"
  define f1 where "f1 = (\<lambda>c::chart. c\<lparr>prizePool := prizePool c1, participants := participants c1\<rparr>)"
  define f2 where "f2 = (\<lambda>c::chart. c\<lparr>c_status := InProgress\<rparr>)"
  define s4 where "s4 = updateChart chartId f2 (updateChart chartId f1 s2)"
  have full: "int (length (participants c1)) \<ge> maxParticipants c1"
    using assms c0 u0 unfolding c1_def
    by (auto simp: post_chart_join_def Let_def split: if_splits prod.splits)
  from assms(1) c0 u0 full have ch: "chart = c1\<lparr>c_status := InProgress\<rparr>"
    unfolding c1_def
    by (auto simp: post_chart_join_def Let_def split: if_splits prod.splits)
  let ?arena = "\<lparr>a_id = nextId s4, a_chart = c_id chart,
             players = map (snapshot_player now) (participants chart),
             a_status = Live, spectators = [], chat = [], startedAt = Some now,
             endedAt = None, a_winner = None, a_updatedAt = now\<rparr>"
  let ?n = "\<lparr>n_user = creator chart, n_type = NChartJoined,
             n_data = ChartJoinedData (c_id chart) reqUser\<rparr>"
  from assms(1) c0 u0 full have s': "s' = send_to_user (creator chart) (NotificationMsg ?n)
       (saveNotification ?n
         (fold (notifyMatchStart (c_id chart) (nextId s4)) (participants chart)
            (s4\<lparr>arenas := arenas s4 @ [?arena], nextId := nextId s4 + 1\<rparr>)))"
    unfolding s4_def s2_def f1_def f2_def ch c1_def
    by (auto simp: post_chart_join_def Let_def split: if_splits prod.splits)
  have g2: "findChart chartId s2 = Some c0" unfolding s2_def using c0 by simp
  have g3: "findChart chartId (updateChart chartId f1 s2) = Some (f1 c0)"
    by (rule findChart_updateChart[OF g2]) (simp add: f1_def id)
  have g4: "findChart chartId s4 = Some (f2 (f1 c0))"
    unfolding s4_def by (rule findChart_updateChart[OF g3]) (simp add: f1_def f2_def id)
  have fc: "findChart chartId s' = Some chart"
    unfolding s' using g4 by (simp add: ch f1_def f2_def c1_def)
  have n4: "nextId s4 = nextId s" and a4: "arenas s4 = arenas s"
    unfolding s4_def s2_def by (simp_all add: updateChart_def updateUser_def saveTransaction_def)
  have cid: "c_id chart = chartId" by (simp add: ch c1_def id)
  have ar: "arenas s' = arenas s @
           [\<lparr>a_id = nextId s, a_chart = chartId,
             players = map (snapshot_player now) (participants chart),
             a_status = Live, spectators = [], chat = [], startedAt = Some now,
             endedAt = None, a_winner = None, a_updatedAt = now\<rparr>]"
    unfolding s' by (simp add: n4 a4 cid saveNotification_def)
  have "post_chart_join t u chartId s' = (Inl (HttpError 400 ''Chart is not open''), s')" for t u
    by (rule join_not_open[OF fc]) (simp add: ch)
  moreover have "length (filter (\<lambda>a. a_chart a = chartId) (arenas s')) = 1"
    if "\<forall>a \<in> set (arenas s). a_chart a \<noteq> chartId"
  proof -
    from that have "filter (\<lambda>a. a_chart a = chartId) (arenas s) = []"
      by (simp add: filter_empty_conv)
    then show ?thesis by (simp add: ar)
  qed
  ultimately show ?thesis using ch fc ar by (simp add: snapshot_player_def)
qed

lemmas join_defs = post_chart_join_def notifyMatchStart_def snapshot_player_def

text \<open>
  The theorem in the scenario: the example chart for two with fee 20; alice joins, bob
  joins, carol tries.
\<close>

theorem join_fills_chart_witness:
  "fst (post_chart_join 2 2 10 (snd (post_chart_join 1 1 10 ex_open)))
     = Inr ((ex_chart InProgress [])
             \<lparr>prizePool := 40,
              participants := [\<lparr>p_user = 1, p_joinedAt = 1, p_status = PPending\<rparr>,
                               \<lparr>p_user = 2, p_joinedAt = 2, p_status = PPending\<rparr>]\<rparr>)
   \<and> arenas (snd (post_chart_join 2 2 10 (snd (post_chart_join 1 1 10 ex_open))))
       = [\<lparr>a_id = 20, a_chart = 10,
           players = [\<lparr>pl_user = 1, score = 0, moves = 0, pl_status = PlPlaying,
                       pl_joinedAt = 2\<rparr>,
                      \<lparr>pl_user = 2, score = 0, moves = 0, pl_status = PlPlaying,
                       pl_joinedAt = 2\<rparr>],
           a_status = Live, spectators = [], chat = [], startedAt = Some 2,
           endedAt = None, a_winner = None, a_updatedAt = 2\<rparr>]
   \<and> post_chart_join 3 3 10 (snd (post_chart_join 2 2 10 (snd (post_chart_join 1 1 10 ex_open))))
       = (Inl (HttpError 400 ''Chart is not open''),
          snd (post_chart_join 2 2 10 (snd (post_chart_join 1 1 10 ex_open))))"
proof -
  let ?s1 = "snd (post_chart_join 1 1 10 ex_open)"
  let ?c = "(ex_chart InProgress [])
             \<lparr>prizePool := 40,
              participants := [\<lparr>p_user = 1, p_joinedAt = 1, p_status = PPending\<rparr>,
                               \<lparr>p_user = 2, p_joinedAt = 2, p_status = PPending\<rparr>]\<rparr>"
  have v: "fst (post_chart_join 2 2 10 ?s1) = Inr ?c"
    by (simp add: join_defs ex_defs prim_defs Let_def)
  then obtain s2 where e: "post_chart_join 2 2 10 ?s1 = (Inr ?c, s2)"
    by (cases "post_chart_join 2 2 10 ?s1") auto
  have full: "int (length (participants ?c)) \<ge> maxParticipants ?c"
    by (simp add: ex_defs)
  have n: "nextId ?s1 = 20" and a: "arenas ?s1 = []"
    by (simp_all add: join_defs ex_defs prim_defs Let_def)
  from join_fills_chart [OF e full] v e n a show ?thesis
    by (simp add: ex_defs)
qed

text \<open>
  Claim C5 as stated fails in the error carol receives: it is \<open>Chart is not open\<close>, not
  \<open>Chart is full\<close>.
\<close>

theorem third_join_counterexample:
  "fst (post_chart_join 3 3 10
          (snd (post_chart_join 2 2 10 (snd (post_chart_join 1 1 10 ex_open)))))
     = Inl (HttpError 400 ''Chart is not open'')
   \<and> fst (post_chart_join 3 3 10
          (snd (post_chart_join 2 2 10 (snd (post_chart_join 1 1 10 ex_open)))))
     \<noteq> Inl (HttpError 400 ''Chart is full'')"
  by (simp add: join_defs ex_defs prim_defs Let_def)

section \<open>The ledger and the balances\<close>

text \<open>
  The invariant \<open>ledger_ok\<close> is kept by every request and realtime event except a
  donation whose recipient is the donor.
\<close>

lemma ledger_sum_cong:
  "transactions s' = transactions s \<Longrightarrow> ledger_sum i s' = ledger_sum i s"
  by (simp add: ledger_sum_def)

lemma ledger_sum_saveTransaction [simp]:
  "ledger_sum i (saveTransaction t s) = ledger_sum i s + (if t_user t = i then t_amount t else 0)"
  by (simp add: ledger_sum_def saveTransaction_def)

lemma ledger_sum_frames [simp]:
  "ledger_sum i (users_update g s) = ledger_sum i s"
  "ledger_sum i (updateUser j f s) = ledger_sum i s"
  by (simp_all add: ledger_sum_def updateUser_def)

lemma map_u_id_upd:
  assumes "\<And>x. u_id (f x) = u_id x"
  shows "map (\<lambda>x. u_id (if u_id x = i then f x else x)) xs = map u_id xs"
  by (simp add: if_distrib[of u_id] assms)

lemma ledger_ok_mono:
  assumes "ledger_ok s" and "users s' = users s" and "transactions s' = transactions s"
    and "nextId s \<le> nextId s'"
  shows "ledger_ok s'"
  using assms unfolding ledger_ok_def list_all_iff
  by (auto simp: ledger_sum_cong[OF assms(3)])

lemma ledger_ok_cong:
  assumes "users s' = users s" and "transactions s' = transactions s"
    and "nextId s' = nextId s"
  shows "ledger_ok s' = ledger_ok s"
  using assms ledger_ok_mono[of s s'] ledger_ok_mono[of s' s] by auto

lemma find_distinct_eq:
  assumes "distinct (map k xs)" and "find (\<lambda>x. k x = i) xs = Some u" and "x \<in> set xs"
    and "k x = i"
  shows "x = u"
  using assms by (induction xs) (auto split: if_splits simp: rev_image_eqI)

text \<open>A write to a user that keeps id and balance.\<close>

lemma ledger_ok_updateUser_keep:
  assumes "ledger_ok s" and "\<And>x. u_id (f x) = u_id x" and "\<And>x. balance (f x) = balance x"
  shows "ledger_ok (updateUser i f s)"
  using assms(1) unfolding ledger_ok_def updateUser_def list_all_iff
  by (auto simp: map_u_id_upd[of f, OF assms(2)] assms(2,3) comp_def)

text \<open>A credit of \<open>d\<close> to user \<open>i\<close> together with its ledger entry.\<close>

lemma ledger_ok_credit:
  assumes ok: "ledger_ok s" and u: "findUser i s = Some u"
    and fid: "\<And>x. u_id (f x) = u_id x" and fb: "\<And>x. balance (f x) = balance u + d"
    and t: "t_user t = i" "t_amount t = d"
  shows "ledger_ok (saveTransaction t (updateUser i f s))"
proof -
  let ?us = "map (\<lambda>x. if u_id x = i then f x else x) (users s)"
  note m = map_u_id_upd[of f i "users s", OF fid]
  from ok have d: "distinct (map u_id (users s))"
    and a: "\<And>x. x \<in> set (users s) \<Longrightarrow> u_id x < nextId s \<and> ledger_sum (u_id x) s = balance x"
    and b: "\<And>x. x \<in> set (transactions s) \<Longrightarrow> t_user x < nextId s"
    by (auto simp: ledger_ok_def list_all_iff)
  from u have uin: "u \<in> set (users s)" "u_id u = i"
    by (auto simp: findUser_def find_Some_iff)
  have "u_id y < nextId s \<and> ledger_sum (u_id y) (saveTransaction t (updateUser i f s)) = balance y"
    if "y \<in> set ?us" for y
  proof -
    from that obtain x where x: "x \<in> set (users s)" "y = (if u_id x = i then f x else x)" by auto
    show ?thesis
    proof (cases "u_id x = i")
      case True
      with find_distinct_eq[OF d u[unfolded findUser_def] x(1)] have "x = u" by simp
      with True x a[OF uin(1)] show ?thesis
        by (simp add: fid fb t)
    next
      case False
      with x a[OF x(1)] show ?thesis
        by (simp add: t)
    qed
  qed
  moreover have "t_user t < nextId s" using a[OF uin(1)] uin(2) t by simp
  ultimately show ?thesis using d b
    unfolding ledger_ok_def list_all_iff
    by (auto simp: m updateUser_def saveTransaction_def comp_def)
qed


lemma nextId_frames [simp]:
  "nextId (updateUser i f s) = nextId s"
  "nextId (updateChart j g s) = nextId s"
  "nextId (updateArena k h s) = nextId s"
  "nextId (saveTransaction t s) = nextId s"
  "nextId (saveNotification n s) = nextId s"
  "nextId (ws_send hh m s) = nextId s"
  "nextId (updateSocket hh fw s) = nextId s"
  "nextId (pullSpectator a u s) = nextId s"
  by (simp_all add: updateUser_def updateChart_def updateArena_def saveTransaction_def
        saveNotification_def ws_send_def updateSocket_def pullSpectator_def)

lemma more_frames [simp]:
  "users (ws_send hh m s) = users s"
  "transactions (ws_send hh m s) = transactions s"
  "users (updateSocket hh fw s) = users s"
  "transactions (updateSocket hh fw s) = transactions s"
  "transactions (pullSpectator a u s) = transactions s"
  by (simp_all add: ws_send_def updateSocket_def pullSpectator_def updateArena_def)

lemma fold_broadcastToAll_more [simp]:
  "transactions (fold (\<lambda>(uid, c) st. if g uid c st then ws_send (cl_ws c) m st else st) xs s)
     = transactions s"
  "nextId (fold (\<lambda>(uid, c) st. if g uid c st then ws_send (cl_ws c) m st else st) xs s)
     = nextId s"
  by (induction xs arbitrary: s; simp split: prod.splits)+

lemma broadcastToAll_more [simp]:
  "transactions (broadcastToAll m e s) = transactions s"
  "nextId (broadcastToAll m e s) = nextId s"
  unfolding broadcastToAll_def by simp_all

lemma fold_leave_more [simp]:
  "users (fold (\<lambda>arenaId st. broadcastToArena arenaId (SpectatorLeft u arenaId) None
       (pullSpectator arenaId u st)) as s) = users s"
  "transactions (fold (\<lambda>arenaId st. broadcastToArena arenaId (SpectatorLeft u arenaId) None
       (pullSpectator arenaId u st)) as s) = transactions s"
  "nextId (fold (\<lambda>arenaId st. broadcastToArena arenaId (SpectatorLeft u arenaId) None
       (pullSpectator arenaId u st)) as s) = nextId s"
  by (induction as arbitrary: s; simp)+

lemma Arena_updateOne_frames [simp]:
  "users (Arena_updateOne a p d s) = users s"
  "transactions (Arena_updateOne a p d s) = transactions s"
  "nextId (Arena_updateOne a p d s) = nextId s"
  by (simp_all add: Arena_updateOne_def split: option.splits)

lemma ledger_ok_frames [simp]:
  "ledger_ok (updateChart j g s) = ledger_ok s"
  "ledger_ok (updateArena k h s) = ledger_ok s"
  "ledger_ok (saveNotification n s) = ledger_ok s"
  "ledger_ok (ws_send hh m s) = ledger_ok s"
  "ledger_ok (send_to_user u m s) = ledger_ok s"
  "ledger_ok (updateSocket hh fw s) = ledger_ok s"
  "ledger_ok (pullSpectator a u s) = ledger_ok s"
  "ledger_ok (broadcastToArena a m e s) = ledger_ok s"
  "ledger_ok (broadcastToAll m e s) = ledger_ok s"
  "ledger_ok (Arena_updateOne a p d s) = ledger_ok s"
  "ledger_ok (fold (notifyParticipant c w pz) ps s) = ledger_ok s"
  "ledger_ok (fold (notifyMatchStart c a) qs s) = ledger_ok s"
  "ledger_ok (fold (\<lambda>arenaId st. broadcastToArena arenaId (SpectatorLeft u arenaId) None
       (pullSpectator arenaId u st)) as s) = ledger_ok s"
  "ledger_ok (connectedClients_update fc s) = ledger_ok s"
  "ledger_ok (notifyMatchStart c a q s) = ledger_ok s"
  "ledger_ok (notifyParticipant c w pz pl s) = ledger_ok s"
  by (rule ledger_ok_cong; simp)+

lemma ledger_ok_fresh:
  "ledger_ok s \<Longrightarrow> ledger_ok (s\<lparr>arenas := as, nextId := Suc (nextId s)\<rparr>)"
  "ledger_ok s \<Longrightarrow> ledger_ok (s\<lparr>charts := cs, nextId := Suc (nextId s)\<rparr>)"
  "ledger_ok s \<Longrightarrow> ledger_ok (s\<lparr>donations := ds, nextId := Suc (nextId s)\<rparr>)"
  by (erule ledger_ok_mono; simp)+

lemma ledger_ok_new_user:
  assumes "ledger_ok s" and "u_id u = nextId s" and "balance u = d"
    and "t_user t = nextId s" and "t_amount t = d"
  shows "ledger_ok (saveTransaction t (s\<lparr>users := users s @ [u], nextId := Suc (nextId s)\<rparr>))"
proof -
  from assms(1) have d: "distinct (map u_id (users s))"
    and a: "\<And>x. x \<in> set (users s) \<Longrightarrow> u_id x < nextId s \<and> ledger_sum (u_id x) s = balance x"
    and b: "\<And>x. x \<in> set (transactions s) \<Longrightarrow> t_user x < nextId s"
    by (auto simp: ledger_ok_def list_all_iff)
  have "filter (\<lambda>x. t_user x = nextId s) (transactions s) = []"
    using b by (fastforce simp: filter_empty_conv)
  then have z: "ledger_sum (nextId s) s = 0" by (simp add: ledger_sum_def)
  have l: "ledger_sum i (s\<lparr>users := us, nextId := n\<rparr>) = ledger_sum i s" for i us n
    by (simp add: ledger_sum_def)
  show ?thesis
    unfolding ledger_ok_def list_all_iff using d a b assms(2-5) z
    by (auto simp: l saveTransaction_def less_Suc_eq dest!: a) (auto simp: ledger_sum_def)
qed

lemma saveTransaction_updateUser_commute:
  "saveTransaction t (updateUser i f s) = updateUser i f (saveTransaction t s)"
  by (simp add: saveTransaction_def updateUser_def)

lemma ledger_ok_register:
  assumes "ledger_ok s"
  shows "ledger_ok (snd (register hash now rq s))"
  using assms
  by (auto simp: register_def Let_def split: option.splits intro!: ledger_ok_new_user)

lemma ledger_ok_deposit:
  assumes "ledger_ok s"
  shows "ledger_ok (snd (post_deposit reqUser amount s))"
  using assms
  by (auto simp: post_deposit_def Let_def split: option.splits
        intro!: ledger_ok_credit[where d = amount])

lemma ledger_ok_completeArena:
  assumes "ledger_ok s"
  shows "ledger_ok (snd (completeArena now arenaId winnerId s))"
  using assms
  by (auto simp: completeArena_def Let_def split: option.splits
        intro!: ledger_ok_credit)

lemma ledger_ok_post_arena_complete:
  assumes "ledger_ok s"
  shows "ledger_ok (snd (post_arena_complete now arenaId winnerId s))"
proof -
  have "snd (post_arena_complete now arenaId winnerId s) = snd (completeArena now arenaId winnerId s)"
    by (simp add: post_arena_complete_def split: prod.splits sum.splits option.splits)
  then show ?thesis using ledger_ok_completeArena[OF assms] by simp
qed


lemma ledger_ok_post_charts:
  assumes "ledger_ok s"
  shows "ledger_ok (snd (post_charts now reqUser rq s))"
proof (cases "findUser reqUser s")
  case None
  with assms show ?thesis by (simp add: post_charts_def)
next
  case (Some u0)
  define s2 where "s2 = saveTransaction
       \<lparr>t_user = reqUser, t_type = EntryFee, t_amount = - cq_entryFee rq,
        t_balance = balance u0 - cq_entryFee rq, t_reference = RefStr ''chart_creation''\<rparr>
       (updateUser reqUser (\<lambda>u. u\<lparr>balance := balance u0 - cq_entryFee rq\<rparr>) s)"
  have ok2: "ledger_ok s2" unfolding s2_def
    by (rule ledger_ok_credit[OF assms Some, where d = "- cq_entryFee rq"]) simp_all
  have ok4: "ledger_ok (updateUser reqUser f (s2\<lparr>charts := cs, nextId := Suc (nextId s2)\<rparr>))"
    if "\<And>x. u_id (f x) = u_id x" "\<And>x. balance (f x) = balance x" for f cs
    by (rule ledger_ok_updateUser_keep[OF ledger_ok_fresh(2)[OF ok2] that])
  show ?thesis using assms Some ok2 ok4
    by (auto simp: post_charts_def Let_def s2_def[symmetric])
qed

lemma ledger_ok_post_chart_join:
  assumes "ledger_ok s"
  shows "ledger_ok (snd (post_chart_join now reqUser chartId s))"
proof (cases "findChart chartId s")
  case None
  with assms show ?thesis by (simp add: post_chart_join_def)
next
  case c0: (Some c0)
  show ?thesis
  proof (cases "findUser reqUser s")
    case None
    with assms c0 show ?thesis by (simp add: post_chart_join_def)
  next
    case (Some u0)
    define s2 where "s2 = saveTransaction
         \<lparr>t_user = reqUser, t_type = EntryFee, t_amount = - entryFee c0,
          t_balance = balance u0 - entryFee c0, t_reference = RefId (c_id c0)\<rparr>
         (updateUser reqUser (\<lambda>u. u\<lparr>balance := balance u0 - entryFee c0\<rparr>) s)"
    have ok2: "ledger_ok s2" unfolding s2_def
      by (rule ledger_ok_credit[OF assms Some, where d = "- entryFee c0"]) simp_all
    have ok5: "ledger_ok ((updateChart i f (updateChart j g s2))
                 \<lparr>arenas := as, nextId := Suc (nextId s2)\<rparr>)" for i f j g as
      by (rule ledger_ok_mono[of s2]) (simp_all add: ok2)
    show ?thesis using assms c0 Some ok2 ok5
      by (auto simp: post_chart_join_def Let_def s2_def[symmetric] split: prod.splits)
  qed
qed

lemma ledger_ok_post_donations:
  assumes "ledger_ok s" and "reqUser \<noteq> recipientId"
  shows "ledger_ok (snd (post_donations now reqUser chartId recipientId amount message s))"
proof (cases "findUser reqUser s")
  case None
  with assms show ?thesis by (simp add: post_donations_def)
next
  case d0: (Some d0)
  show ?thesis
  proof (cases "findUser recipientId s")
    case None
    with assms d0 show ?thesis by (simp add: post_donations_def split: option.splits)
  next
    case r0: (Some r0)
    define fd where "fd = (\<lambda>u::user. u\<lparr>balance := balance d0 - amount,
                                  totalSupported := totalSupported d0 + amount\<rparr>)"
    define fr where "fr = (\<lambda>u::user. u\<lparr>balance := balance r0 + amount,
                                  totalEarned := totalEarned r0 + amount\<rparr>)"
    have ok: "ledger_ok (saveTransaction tr (saveTransaction td
                 (updateUser recipientId fr (updateUser reqUser fd (s\<lparr>donations := ds, nextId := Suc (nextId s)\<rparr>)))))"
      if "t_user td = reqUser" "t_amount td = - amount"
         "t_user tr = recipientId" "t_amount tr = amount" for td tr ds
    proof -
      have ok1: "ledger_ok (s\<lparr>donations := ds, nextId := Suc (nextId s)\<rparr>)"
        by (rule ledger_ok_fresh(3)[OF assms(1)])
      have fu: "findUser reqUser (s\<lparr>donations := ds, nextId := Suc (nextId s)\<rparr>) = Some d0" "findUser recipientId (s\<lparr>donations := ds, nextId := Suc (nextId s)\<rparr>) = Some r0"
        using d0 r0 by (simp_all add: findUser_def)
      have a: "ledger_ok (saveTransaction td (updateUser reqUser fd (s\<lparr>donations := ds, nextId := Suc (nextId s)\<rparr>)))"
        by (rule ledger_ok_credit[OF ok1 fu(1), where d = "- amount"])
           (simp_all add: fd_def that)
      have "findUser recipientId (saveTransaction td (updateUser reqUser fd (s\<lparr>donations := ds, nextId := Suc (nextId s)\<rparr>))) = Some r0"
        using fu(2) assms(2)
        by (simp add: findUser_def updateUser_def saveTransaction_def fd_def
              find_map_upd_other[where k = u_id])
      from ledger_ok_credit[OF a this, where d = amount and f = fr and t = tr]
      have "ledger_ok (saveTransaction tr
              (updateUser recipientId fr (saveTransaction td (updateUser reqUser fd (s\<lparr>donations := ds, nextId := Suc (nextId s)\<rparr>)))))"
        by (simp add: fr_def that)
      then show ?thesis by (simp add: saveTransaction_updateUser_commute)
    qed
    show ?thesis using assms d0 r0
      by (auto simp: post_donations_def Let_def fd_def[symmetric] fr_def[symmetric]
            split: option.splits intro!: ok)
  qed
qed


lemma ledger_ok_on_message:
  assumes "ledger_ok s"
  shows "ledger_ok (on_message now h msg s)"
proof (cases "findSocket h s")
  case None
  with assms show ?thesis by (simp add: on_message_def)
next
  case (Some ws)
  show ?thesis
  proof (cases msg)
    case (Auth d)
    with assms Some show ?thesis
      by (cases d) (auto simp: on_message_def Let_def intro!: ledger_ok_updateUser_keep)
  next
    case (JoinArena a)
    with assms Some show ?thesis
      by (auto simp: on_message_def Let_def split: option.splits)
  next
    case (ArenaChatMsg a m)
    with assms Some show ?thesis
      by (auto simp: on_message_def Let_def split: option.splits)
  next
    case (UpdateScore a p sc mv)
    let ?st = "broadcastToArena a (ScoreUpdate a p sc mv) None
                 (Arena_updateOne a p (score_update_doc now sc mv) s)"
    have "ledger_ok (snd (completeArena now a p ?st))"
      by (rule ledger_ok_completeArena) (simp add: assms)
    then have "ledger_ok st'" if "completeArena now a p ?st = (r, st')" for st' r
      using that by simp
    with UpdateScore assms Some show ?thesis
      by (auto simp: on_message_def Let_def split: option.splits prod.splits sum.splits)
  next
    case LeaveArena
    with assms Some show ?thesis
      by (auto simp: on_message_def Let_def split: option.splits)
  next
    case Ping
    with assms Some show ?thesis by (simp add: on_message_def)
  qed
qed

lemma ledger_ok_on_close:
  assumes "ledger_ok s"
  shows "ledger_ok (on_close now h s)"
  using assms
  by (auto simp: on_close_def Let_def split: option.splits intro!: ledger_ok_updateUser_keep)

lemma ledger_ok_step:
  assumes "ledger_ok s" and "\<not> is_self_donation rq"
  shows "ledger_ok (step hash rq s)"
  using assms
  by (cases rq)
     (simp_all add: ledger_ok_register ledger_ok_deposit ledger_ok_post_charts
        ledger_ok_post_chart_join ledger_ok_post_donations ledger_ok_post_arena_complete
        ledger_ok_on_message ledger_ok_on_close)

lemma ledger_ok_empty: "ledger_ok ex_empty"
  by (simp add: ledger_ok_def ex_empty_def)

text \<open>
  From a state where the ledger agrees with the balances, every run of requests without a
  donation to oneself ends in such a state: each user's ledger entries sum to the user's
  balance.
\<close>

lemma ledger_invariant_run:
  assumes "ledger_ok s" and "list_all (\<lambda>rq. \<not> is_self_donation rq) rqs"
  shows "ledger_ok (fold (step hash) rqs s)"
  using assms by (induction rqs arbitrary: s) (simp_all add: ledger_ok_step)

lemma findUser_updateUser_other:
  assumes "i \<noteq> j" and "\<And>x. u_id (f x) = u_id x"
  shows "findUser j (updateUser i f s) = findUser j s"
  unfolding findUser_def updateUser_def using assms
  by (simp add: find_map_upd_other[where k = u_id])

lemma ledger_ok_balance:
  assumes "ledger_ok s" and "findUser i s = Some u"
  shows "ledger_sum i s = balance u"
  using assms by (auto simp: ledger_ok_def list_all_iff findUser_def find_Some_iff)

text \<open>
  A completed donation between two different users: two ledger entries referencing the
  donation, the donor debited, the recipient credited, the chart's total raised.
\<close>

lemma donation_distinct_parties:
  assumes "post_donations now reqUser chartId recipientId amount message s = (Inr r, s')"
    and "reqUser \<noteq> recipientId"
    and "findUser reqUser s = Some donor" and "findUser recipientId s = Some recipient"
    and "findChart chartId s = Some chart"
  shows "d_id (dr_donation r) = nextId s
       \<and> donations s' = donations s @ [dr_donation r]
       \<and> transactions s' = transactions s @
           [\<lparr>t_user = reqUser, t_type = DonationTxn, t_amount = - amount,
             t_balance = balance donor - amount, t_reference = RefId (nextId s)\<rparr>,
            \<lparr>t_user = recipientId, t_type = DonationTxn, t_amount = amount,
             t_balance = balance recipient + amount, t_reference = RefId (nextId s)\<rparr>]
       \<and> findUser reqUser s'
           = Some (donor\<lparr>balance := balance donor - amount,
                         totalSupported := totalSupported donor + amount\<rparr>)
       \<and> findUser recipientId s'
           = Some (recipient\<lparr>balance := balance recipient + amount,
                             totalEarned := totalEarned recipient + amount\<rparr>)
       \<and> findChart chartId s'
           = Some (chart\<lparr>c_donations := c_donations chart @ [nextId s],
                         totalDonations := totalDonations chart + amount\<rparr>)"
proof -
  define fd where "fd = (\<lambda>u::user. u\<lparr>balance := balance donor - amount,
                                totalSupported := totalSupported donor + amount\<rparr>)"
  define fr where "fr = (\<lambda>u::user. u\<lparr>balance := balance recipient + amount,
                                totalEarned := totalEarned recipient + amount\<rparr>)"
  define fc where "fc = (\<lambda>c::chart. c\<lparr>c_donations := c_donations chart @ [nextId s],
                                totalDonations := totalDonations chart + amount\<rparr>)"
  define dn where "dn = \<lparr>d_id = nextId s, d_user = reqUser, d_chart = chartId,
        d_recipient = recipientId, d_amount = amount,
        d_message = js_or_str (map_option trim message) [],
        d_status = DCompleted, d_completedAt = Some now\<rparr>"
  define s1 where "s1 = s\<lparr>donations := donations s @ [dn], nextId := Suc (nextId s)\<rparr>"
  define td where "td = \<lparr>t_user = reqUser, t_type = DonationTxn, t_amount = - amount,
             t_balance = balance donor - amount, t_reference = RefId (nextId s)\<rparr>"
  define tr where "tr = \<lparr>t_user = recipientId, t_type = DonationTxn, t_amount = amount,
             t_balance = balance recipient + amount, t_reference = RefId (nextId s)\<rparr>"
  define n where "n = \<lparr>n_user = recipientId, n_type = NDonation,
             n_data = DonationData chartId (nextId s) amount reqUser\<rparr>"
  from assms(1,3-5) have r: "dr_donation r = dn"
    and s': "s' = send_to_user recipientId (NotificationMsg n) (saveNotification n
        (updateChart chartId fc (saveTransaction tr (saveTransaction td
          (updateUser recipientId fr (updateUser reqUser fd s1))))))"
    unfolding fd_def fr_def fc_def dn_def s1_def td_def tr_def n_def
    by (auto simp: post_donations_def Let_def split: if_splits)
  have u1: "findUser reqUser s1 = Some donor" "findUser recipientId s1 = Some recipient"
    and c1: "findChart chartId s1 = Some chart"
    using assms(3-5) by (simp_all add: s1_def findUser_def findChart_def)
  have a: "findUser reqUser (updateUser reqUser fd s1) = Some (fd donor)"
    by (rule findUser_updateUser[OF u1(1)]) (simp add: fd_def findUser_id[OF assms(3)])
  have b: "findUser reqUser (updateUser recipientId fr (updateUser reqUser fd s1))
           = Some (fd donor)"
    using a assms(2) by (simp add: findUser_updateUser_other fr_def)
  have c: "findUser recipientId (updateUser reqUser fd s1) = Some recipient"
    using u1(2) assms(2) by (simp add: findUser_updateUser_other fd_def)
  have d: "findUser recipientId (updateUser recipientId fr (updateUser reqUser fd s1))
           = Some (fr recipient)"
    by (rule findUser_updateUser[OF c]) (simp add: fr_def findUser_id[OF assms(4)])
  have e: "findChart chartId s' = Some (fc chart)"
    unfolding s' using findChart_updateChart[of chartId _ chart fc] c1
    by (simp add: fc_def findChart_id[OF assms(5)])
  have t: "transactions s' = transactions s @ [td, tr]"
    unfolding s' by (simp add: s1_def)
  have dd: "donations s' = donations s @ [dn]"
    unfolding s' by (simp add: s1_def)
  from r b d e t dd show ?thesis
    unfolding s' by (simp add: fd_def fr_def fc_def td_def tr_def dn_def)
qed

section \<open>Where the code departs from its intent\<close>

lemmas ws_defs = on_message_def set_add_def addToSet_def pullSpectator_def js_object_def
  Arena_updateOne_def score_update_doc_def chart_winScore_def js_or_def

text \<open>
  Claim C7 at a concrete input. Carol joins arena 20 as a spectator at time 2 and again at
  time 3. The value handed to \<open>$addToSet\<close> carries \<open>joinedAt: Date.now()\<close>, so the second
  value differs from the stored one and is appended: the spectator list then holds carol
  twice.
\<close>

theorem spectator_rejoin_duplicates:
  "map_option spectators (findArena 20 (on_message 2 3 (JoinArena 20)
       (on_message 1 3 (Auth (Some 3)) ex_live)))
     = Some [\<lparr>sp_user = 3, sp_joinedAt = 2\<rparr>]
   \<and> map_option spectators (findArena 20 ex_rejoin)
     = Some [\<lparr>sp_user = 3, sp_joinedAt = 2\<rparr>, \<lparr>sp_user = 3, sp_joinedAt = 3\<rparr>]"
  by (simp add: ex_rejoin_def ws_defs ex_defs prim_defs Let_def)

text \<open>
  Claim C4 at a concrete input. Alice, a player of arena 20, reports score 50 and 4 moves
  as their own at time 7. The update document names \<open>$set\<close> twice, so it holds only the
  \<open>updatedAt\<close> path: the stored scores and moves stay 0 while \<open>updatedAt\<close> becomes 7 and
  the \<open>score_update\<close> event with the reported values goes out to both players.
\<close>

theorem update_score_not_persisted:
  "map_option players (findArena 20 (on_message 7 1 (UpdateScore 20 1 50 (Some 4)) ex_live))
     = Some [\<lparr>pl_user = 1, score = 0, moves = 0, pl_status = PlPlaying, pl_joinedAt = 0\<rparr>,
             \<lparr>pl_user = 2, score = 0, moves = 0, pl_status = PlPlaying, pl_joinedAt = 0\<rparr>]
   \<and> map_option a_updatedAt
         (findArena 20 (on_message 7 1 (UpdateScore 20 1 50 (Some 4)) ex_live)) = Some 7
   \<and> outbox (on_message 7 1 (UpdateScore 20 1 50 (Some 4)) ex_live)
     = [(1, ScoreUpdate 20 1 50 (Some 4)), (2, ScoreUpdate 20 1 50 (Some 4))]
   \<and> score_update_doc 7 50 (Some 4) = [(''$set'', [UpdatedAt 7])]"
  by (simp add: ws_defs ex_defs prim_defs Let_def)

text \<open>
  Claim C6 at a concrete input. Alice holds 100 and donates 30 to their own account. The donation
  completes; the answer reports the donor's balance as 70 and the donor's ledger entry
  records 70, but the recipient's copy, loaded before the debit, is saved last: alice's
  stored balance is 130.
\<close>

theorem self_donation_balances:
  "map_option balance (findUser 1 ex_open) = Some 100
   \<and> fst (post_donations 7 1 10 1 30 None ex_open)
       = Inr \<lparr>dr_donation = \<lparr>d_id = 20, d_user = 1, d_chart = 10, d_recipient = 1,
                               d_amount = 30, d_message = [], d_status = DCompleted,
                               d_completedAt = Some 7\<rparr>,
               dr_balance = 70, dr_recipientBalance = 130\<rparr>
   \<and> map_option balance (findUser 1 (snd (post_donations 7 1 10 1 30 None ex_open))) = Some 130
   \<and> transactions (snd (post_donations 7 1 10 1 30 None ex_open))
       = [\<lparr>t_user = 1, t_type = DonationTxn, t_amount = - 30, t_balance = 70,
           t_reference = RefId 20\<rparr>,
          \<lparr>t_user = 1, t_type = DonationTxn, t_amount = 30, t_balance = 130,
           t_reference = RefId 20\<rparr>]"
  by (simp add: post_donations_def js_or_str_def ex_defs prim_defs Let_def)

text \<open>
  Claim C2 at a concrete input. A user registers (100), creates a chart with entry fee 10
  and donates 30 on it to themself. Every balance mutation wrote its ledger entry, the
  entries sum to 90, and the stored balance is 120.
\<close>

theorem self_donation_breaks_ledger:
  "map_option balance (findUser 1 ex_self_donation) = Some 120
   \<and> map t_amount (filter (\<lambda>t. t_user t = 1) (transactions ex_self_donation))
       = [100, - 10, - 30, 30]
   \<and> ledger_sum 1 ex_self_donation = 90"
  by (simp add: ex_self_donation_def ex_empty_def ex_chart_req_def ex_register_req_def
        register_def post_charts_def post_donations_def ledger_sum_def string_defs js_or_def
        prim_defs Let_def)

end
